theory Spec2Isabelle
  imports Complex_Main "HOL-Library.Word" "HOL-Library.Log_Nat"
begin

section \<open>LuckPay: settlement engine\<close>

text \<open>
  The on-chain program is a Solana (Anchor) program. Identities are 32-byte public keys,
  amounts are unsigned 64-bit lamport counts, the discount percentage and the raw random
  value are single bytes. Native balances kept by the ledger are natural numbers.
\<close>

type_synonym Pubkey = "256 word"
type_synonym u8 = "8 word"
type_synonym u64 = "64 word"

text \<open>\<open>CoinSide\<close> of sdk/luckpay-sdk.ts; the hook serialises 0 = Heads, 1 = Tails.\<close>

datatype CoinSide = Heads | Tails

text \<open>The lifecycle states, serialised 0 = Created, 1 = RandomnessRequested, 2 = Resolved.\<close>

datatype GameState = Created | RandomnessRequested | Resolved

text \<open>\<open>GameResult\<close>, \<open>GameAccount\<close> and \<open>ConfigAccount\<close> of sdk/luckpay-sdk.ts, with the
  \<open>discount_percentage\<close> byte of the record layout read by the hook. The creation time
  is a signed 64-bit timestamp. The Config's address bump plays no part in any operation
  and is left out.\<close>

record GameResult =
  coinResult :: CoinSide
  playerWon :: bool
  randomValue :: u8

record Game =
  player :: Pubkey
  recipient :: Pubkey
  betAmount :: u64
  choice :: CoinSide
  discountPercentage :: u8
  gameState :: GameState
  createdAt :: int
  vrfClientState :: "Pubkey option"
  result :: "GameResult option"
  bump :: u8

record Config =
  authority :: Pubkey
  houseEdge :: nat
  maxBetAmount :: u64
  totalGames :: u64
  totalVolume :: u64

text \<open>
  The error codes named by the program (\<open>LuckPayError\<close> in the Rust of the VRF guide, the
  error names the tests match), followed by the faults of the underlying ledger: an
  arithmetic overflow, an allocation that cannot be made, a transfer that cannot be paid,
  and a failure reported by the external randomness program.
\<close>

datatype LuckPayError =
    InvalidGameState
  | BetTooHigh
  | InvalidBetAmount
  | RandomnessNotReady
  | AccountNotInitialized
  | InsufficientTreasuryBalance
  | ArithmeticOverflow
  | AllocationFailure
  | InsufficientFunds
  | ExternalProgramError

text \<open>A wager record as the ledger keeps it: the record's data and the allocation deposit
  (rent) the account holds.\<close>

record GameAccount =
  rentLamports :: nat
  data :: Game

text \<open>
  The ledger: the singleton Config record (absent until initialised), the wager records
  keyed by the bettor-derived address (the seeds are \<open>"game"\<close> and the bettor's key, so
  the key stands for the address), the native balance of every identity, and the
  treasury's balance.
\<close>

record Ledger =
  config :: "Config option"
  games :: "Pubkey \<Rightarrow> GameAccount option"
  lamports :: "Pubkey \<Rightarrow> nat"
  treasury :: nat

subsection \<open>Checked 64-bit arithmetic\<close>

definition U64_MAX :: nat where
  "U64_MAX = 2 ^ 64 - 1"

definition checked_add :: "nat \<Rightarrow> nat \<Rightarrow> nat option" where
  "checked_add a b = (if a + b \<le> U64_MAX then Some (a + b) else None)"

definition checked_sub :: "nat \<Rightarrow> nat \<Rightarrow> nat option" where
  "checked_sub a b = (if b \<le> a then Some (a - b) else None)"

definition checked_mul :: "nat \<Rightarrow> nat \<Rightarrow> nat option" where
  "checked_mul a b = (if a * b \<le> U64_MAX then Some (a * b) else None)"

subsection \<open>Config bootstrap\<close>

text \<open>
  Modelled from the spec: the on-chain handler of \<open>initializeConfig\<close> is not among the
  sources (only its callers and its test are). Section 4.1 and the test "Initializes the
  config correctly": the Config is allocated with authority = caller, maxBet = the input
  and both counters 0; it is created exactly once, so allocating over an existing Config
  is the underlying allocation failure. The house edge is a value fixed outside the
  sources and is a parameter.
\<close>

definition initialize_config :: "Pubkey \<Rightarrow> nat \<Rightarrow> u64 \<Rightarrow> Ledger \<Rightarrow> LuckPayError + Ledger" where
  "initialize_config caller house_edge max_bet_amount L =
     (case config L of
        Some _ \<Rightarrow> Inl AllocationFailure
      | None \<Rightarrow>
          Inr (L\<lparr>config := Some \<lparr> authority = caller,
                                 houseEdge = house_edge,
                                 maxBetAmount = max_bet_amount,
                                 totalGames = 0,
                                 totalVolume = 0 \<rparr>\<rparr>))"

subsection \<open>Wager creation\<close>

text \<open>
  Modelled from the spec: the on-chain handler of \<open>createGame\<close> is not among the sources.
  Section 4.2: the Config is read; a bet of 0 fails \<open>InvalidBetAmount\<close>; a bet above the
  Config's maximum fails \<open>BetTooHigh\<close>; then a Wager record is allocated at the
  bettor-derived address with state Created and all fields stored, and the bettor is
  charged the allocation deposit \<open>rent\<close>. The address holds at most one record per bettor
  (section 9), so an occupied address, or a bettor who cannot pay the deposit, is an
  allocation failure. No other balance moves.
\<close>

definition create_game ::
  "Pubkey \<Rightarrow> u64 \<Rightarrow> Pubkey \<Rightarrow> CoinSide \<Rightarrow> u8 \<Rightarrow> int \<Rightarrow> nat \<Rightarrow> u8 \<Rightarrow> Ledger
     \<Rightarrow> LuckPayError + Ledger" where
  "create_game bettor bet_amount recipient_key side discount now rent game_bump L =
     (case config L of
        None \<Rightarrow> Inl AccountNotInitialized
      | Some cfg \<Rightarrow>
          if bet_amount = 0 then Inl InvalidBetAmount
          else if maxBetAmount cfg < bet_amount then Inl BetTooHigh
          else if games L bettor \<noteq> None then Inl AllocationFailure
          else if lamports L bettor < rent then Inl AllocationFailure
          else
            Inr (L\<lparr> games := (games L)(bettor \<mapsto>
                       \<lparr> rentLamports = rent,
                         data = \<lparr> player = bettor,
                                  recipient = recipient_key,
                                  betAmount = bet_amount,
                                  choice = side,
                                  discountPercentage = discount,
                                  gameState = Created,
                                  createdAt = now,
                                  vrfClientState = None,
                                  result = None,
                                  bump = game_bump \<rparr> \<rparr>),
                     lamports := (lamports L)(bettor := lamports L bettor - rent) \<rparr>))"

subsection \<open>Randomness request\<close>

text \<open>
  \<open>request_randomness\<close> of the VRF integration guide: the state must be Created
  (\<open>require!\<close>, else \<open>InvalidGameState\<close>); the request to the randomness program
  (\<open>invoke_signed(...)?\<close>, an external call whose outcome is a parameter) must succeed;
  then the state becomes RandomnessRequested and the VRF account is recorded. A record
  that does not exist cannot be loaded (\<open>AccountNotInitialized\<close>, test "Fails to request
  randomness before game creation").
\<close>

definition request_randomness ::
  "Pubkey \<Rightarrow> Pubkey \<Rightarrow> (LuckPayError + unit) \<Rightarrow> Ledger \<Rightarrow> LuckPayError + Ledger" where
  "request_randomness gamePda vrf invoke_signed L =
     (case games L gamePda of
        None \<Rightarrow> Inl AccountNotInitialized
      | Some acct \<Rightarrow>
          let game = data acct in
          if gameState game \<noteq> Created then Inl InvalidGameState
          else
            (case invoke_signed of
               Inl e \<Rightarrow> Inl e
             | Inr _ \<Rightarrow>
                 Inr (L\<lparr> games := (games L)(gamePda \<mapsto>
                        acct\<lparr> data := game\<lparr> gameState := RandomnessRequested,
                                              vrfClientState := Some vrf \<rparr> \<rparr>) \<rparr>)))"

subsection \<open>Resolution\<close>

text \<open>
  The part of \<open>resolve_game\<close> that the VRF integration guide spells out: the state must be
  RandomnessRequested (else \<open>InvalidGameState\<close>); the VRF result is loaded (two fallible
  external reads, whose outcome is the parameter \<open>vrf_result\<close>); an empty result buffer
  fails \<open>RandomnessNotReady\<close>; the first byte decides the coin by parity, and the player
  wins when the coin equals the choice. The three values make up the \<open>GameResult\<close>.
\<close>

definition resolve_outcome :: "Game \<Rightarrow> (LuckPayError + u8 list) \<Rightarrow> LuckPayError + GameResult" where
  "resolve_outcome game vrf_result =
     (if gameState game \<noteq> RandomnessRequested then Inl InvalidGameState
      else
        (case vrf_result of
           Inl e \<Rightarrow> Inl e
         | Inr result_buffer \<Rightarrow>
             (case result_buffer of
                [] \<Rightarrow> Inl RandomnessNotReady
              | random_byte # _ \<Rightarrow>
                  let coin_result = (if random_byte mod 2 = 0 then Heads else Tails);
                      player_won = (coin_result = choice game)
                  in Inr \<lparr> coinResult = coin_result,
                           playerWon = player_won,
                           randomValue = random_byte \<rparr>)))"

text \<open>
  Modelled from the spec: the payout computation is in the part of \<open>resolve_game\<close> that
  the guide elides ("rest of game resolution logic"). Section 4.4, step 4: the wager's
  escrowed exposure is \<open>betAmount * 2\<close>; on a win the recipient receives
  \<open>betAmount * (100 - discountPercentage) / 100\<close> by integer floor division and the
  bettor is refunded the remainder of the exposure; on a loss the recipient receives
  \<open>betAmount * 2\<close> and nothing is refunded. Section 7: an arithmetic overflow in the
  payout computation is a fault.
\<close>

record Payout =
  exposure :: nat
  recipientReceipt :: nat
  bettorRefund :: nat

definition compute_payout :: "u64 \<Rightarrow> u8 \<Rightarrow> bool \<Rightarrow> LuckPayError + Payout" where
  "compute_payout bet_amount discount player_won =
     (case checked_mul (unat bet_amount) 2 of
        None \<Rightarrow> Inl ArithmeticOverflow
      | Some escrowed \<Rightarrow>
          if player_won then
            (case checked_sub 100 (unat discount) of
               None \<Rightarrow> Inl ArithmeticOverflow
             | Some pct \<Rightarrow>
                 (case checked_mul (unat bet_amount) pct of
                    None \<Rightarrow> Inl ArithmeticOverflow
                  | Some scaled \<Rightarrow>
                      (case checked_sub escrowed (scaled div 100) of
                         None \<Rightarrow> Inl ArithmeticOverflow
                       | Some refund \<Rightarrow>
                           Inr \<lparr> exposure = escrowed,
                                 recipientReceipt = scaled div 100,
                                 bettorRefund = refund \<rparr>)))
          else
            Inr \<lparr> exposure = escrowed,
                  recipientReceipt = escrowed,
                  bettorRefund = 0 \<rparr>)"

text \<open>
  Modelled from the spec: the transfers of section 4.4. No funds move at creation, so the
  exposure is drawn from the bettor at resolution; the recipient is paid the receipt, the
  bettor is refunded, and what is left of the exposure is the treasury's net change. A
  bettor who cannot cover the exposure makes the transfer, and so the operation, fail.
\<close>

definition transfer_payout ::
  "Game \<Rightarrow> Payout \<Rightarrow> (Pubkey \<Rightarrow> nat) \<times> nat \<Rightarrow> ((Pubkey \<Rightarrow> nat) \<times> nat) option" where
  "transfer_payout game p st =
     (let bal = fst st; tre = snd st in
      if bal (player game) < exposure p then None
      else
        let escrowed = bal(player game := bal (player game) - exposure p);
            paid = escrowed(recipient game := escrowed (recipient game) + recipientReceipt p);
            refunded = paid(player game := paid (player game) + bettorRefund p)
        in Some (refunded, tre + (exposure p - recipientReceipt p - bettorRefund p)))"

text \<open>Modelled from the spec: step 6 of section 4.4, the Config's aggregate counters.\<close>

definition update_counters :: "Config \<Rightarrow> u64 \<Rightarrow> Config option" where
  "update_counters cfg bet_amount =
     (case checked_add (unat (totalGames cfg)) 1 of
        None \<Rightarrow> None
      | Some n \<Rightarrow>
          (case checked_add (unat (totalVolume cfg)) (unat bet_amount) of
             None \<Rightarrow> None
           | Some v \<Rightarrow> Some (cfg\<lparr> totalGames := of_nat n, totalVolume := of_nat v \<rparr>)))"

text \<open>
  Modelled from the spec: what \<open>resolve_game\<close> does once the outcome is determined,
  which the guide elides. The wager and the Config are loaded and the outcome is
  determined by \<open>resolve_outcome\<close>, as the guide has it; then, by section 4.4 steps 4 to
  6, the payout is computed and transferred, the result is written with the state
  Resolved, and the counters are updated. Any failure leaves the ledger as it was.
\<close>

definition resolve_game ::
  "Pubkey \<Rightarrow> (LuckPayError + u8 list) \<Rightarrow> Ledger \<Rightarrow> LuckPayError + Ledger" where
  "resolve_game gamePda vrf_result L =
     (case games L gamePda of
        None \<Rightarrow> Inl AccountNotInitialized
      | Some acct \<Rightarrow>
          (case config L of
             None \<Rightarrow> Inl AccountNotInitialized
           | Some cfg \<Rightarrow>
               let game = data acct in
               (case resolve_outcome game vrf_result of
                  Inl e \<Rightarrow> Inl e
                | Inr res \<Rightarrow>
                    (case compute_payout (betAmount game) (discountPercentage game)
                            (playerWon res) of
                       Inl e \<Rightarrow> Inl e
                     | Inr p \<Rightarrow>
                         (case transfer_payout game p (lamports L, treasury L) of
                            None \<Rightarrow> Inl InsufficientFunds
                          | Some (bal, tre) \<Rightarrow>
                              (case update_counters cfg (betAmount game) of
                                 None \<Rightarrow> Inl ArithmeticOverflow
                               | Some cfg' \<Rightarrow>
                                   Inr (L\<lparr> config := Some cfg',
                                           games := (games L)(gamePda \<mapsto>
                                             acct\<lparr> data := game\<lparr> gameState := Resolved,
                                                                   result := Some res \<rparr> \<rparr>),
                                           lamports := bal,
                                           treasury := tre \<rparr>)))))))"

subsection \<open>Closure and reads\<close>

text \<open>
  Modelled from the spec: the on-chain handler of \<open>closeGame\<close> is not among the sources.
  Section 4.5 and the test "Successfully closes a resolved game": the state must be
  Resolved (else \<open>InvalidGameState\<close>); the record is deallocated and its allocation
  deposit goes to the bettor. A record that does not exist cannot be loaded.
\<close>

definition close_game :: "Pubkey \<Rightarrow> Ledger \<Rightarrow> LuckPayError + Ledger" where
  "close_game gamePda L =
     (case games L gamePda of
        None \<Rightarrow> Inl AccountNotInitialized
      | Some acct \<Rightarrow>
          let game = data acct in
          if gameState game \<noteq> Resolved then Inl InvalidGameState
          else
            Inr (L\<lparr> games := (games L)(gamePda := None),
                     lamports := (lamports L)(player game :=
                                    lamports L (player game) + rentLamports acct) \<rparr>))"

text \<open>Reading a wager record (\<open>program.account.game.fetch\<close>): a record that does not exist
  fails \<open>AccountNotInitialized\<close>.\<close>

definition fetch_game :: "Pubkey \<Rightarrow> Ledger \<Rightarrow> LuckPayError + Game" where
  "fetch_game gamePda L =
     (case games L gamePda of
        None \<Rightarrow> Inl AccountNotInitialized
      | Some acct \<Rightarrow> Inr (data acct))"

text \<open>The lifecycle state of the record at an address, if there is one.\<close>

definition state_at :: "Ledger \<Rightarrow> Pubkey \<Rightarrow> GameState option" where
  "state_at L gamePda = map_option (\<lambda>acct. gameState (data acct)) (games L gamePda)"

text \<open>The program's entry points, and the dispatch of one instruction.\<close>

datatype Instruction =
    InitializeConfig Pubkey nat u64
  | CreateGame Pubkey u64 Pubkey CoinSide u8 int nat u8
  | RequestRandomness Pubkey Pubkey "LuckPayError + unit"
  | ResolveGame Pubkey "LuckPayError + u8 list"
  | CloseGame Pubkey

fun execute :: "Instruction \<Rightarrow> Ledger \<Rightarrow> LuckPayError + Ledger" where
  "execute (InitializeConfig caller he mb) L = initialize_config caller he mb L"
| "execute (CreateGame bettor amt rcp side d now rent b) L =
     create_game bettor amt rcp side d now rent b L"
| "execute (RequestRandomness pda vrf cpi) L = request_randomness pda vrf cpi L"
| "execute (ResolveGame pda vr) L = resolve_game pda vr L"
| "execute (CloseGame pda) L = close_game pda L"

text \<open>
  The moves of one record's lifecycle: it stays as it is, it is created, it advances by
  one state, or it is closed from Resolved.
\<close>

fun lifecycle_move :: "GameState option \<Rightarrow> GameState option \<Rightarrow> bool" where
  "lifecycle_move None (Some Created) = True"
| "lifecycle_move (Some Created) (Some RandomnessRequested) = True"
| "lifecycle_move (Some RandomnessRequested) (Some Resolved) = True"
| "lifecycle_move (Some Resolved) None = True"
| "lifecycle_move s t = (s = t)"

section \<open>LuckPay: client layer (SDK and wallet hook)\<close>

subsection \<open>JavaScript numbers\<close>

text \<open>
  The TypeScript client computes with JavaScript numbers, which are IEEE 754 binary64
  values: the finite ones, the two infinities and NaN. A finite value is given by the real
  number it denotes (the two zeros are not told apart: no operation used here
  distinguishes them but by the sign of a zero result). The arguments of the functions
  below are numbers the program holds, so their finite values are representable; every
  arithmetic result is rounded to the nearest representable value, ties to the even
  significand, and a result of magnitude \<open>2 ^ 1024\<close> or more is an infinity.
\<close>

datatype Number = Num real | PosInfinity | NegInfinity | NaN

text \<open>Rounding a quotient to the nearest whole number, a tie going to the even one.\<close>

definition round_half_even :: "real \<Rightarrow> int" where
  "round_half_even q =
     (let f = \<lfloor>q\<rfloor> in
      if q - of_int f < 1 / 2 then f
      else if 1 / 2 < q - of_int f then f + 1
      else if even f then f else f + 1)"

text \<open>
  The binary exponent of a positive number: the whole number \<open>e\<close> with
  \<open>2 ^ e \<le> x < 2 ^ (e + 1)\<close>, that is \<open>\<lfloor>log 2 x\<rfloor>\<close> (lemma \<open>floor_log2_eq\<close>), computed from
  the bit length of the whole part of \<open>x\<close>, or of \<open>1 / x\<close> below 1.
\<close>

definition floor_log2 :: "real \<Rightarrow> int" where
  "floor_log2 x = (if 1 \<le> x then bitlen \<lfloor>x\<rfloor> - 1 else - bitlen (\<lceil>1 / x\<rceil> - 1))"

text \<open>
  The exponent of the unit in the last place at \<open>x\<close>: the significand has 53 bits, and
  below \<open>2 ^ (- 1022)\<close> the spacing stays that of the smallest normal numbers.
\<close>

definition ulp_exponent :: "real \<Rightarrow> int" where
  "ulp_exponent x = max (floor_log2 \<bar>x\<bar>) (- 1022) - 52"

definition round_double :: "real \<Rightarrow> Number" where
  "round_double x =
     (if x = 0 then Num 0
      else
        let u = 2 powi ulp_exponent x;
            y = of_int (round_half_even (x / u)) * u
        in if 2 ^ 1024 \<le> \<bar>y\<bar> then (if 0 < x then PosInfinity else NegInfinity)
           else Num y)"

text \<open>The operators \<open>+\<close>, \<open>*\<close>, \<open>/\<close>, \<open>>=\<close> and \<open><\<close> on numbers.\<close>

fun sign_of :: "Number \<Rightarrow> real" where
  "sign_of (Num a) = sgn a"
| "sign_of PosInfinity = 1"
| "sign_of NegInfinity = - 1"
| "sign_of NaN = 0"

definition inf_of_sign :: "real \<Rightarrow> Number" where
  "inf_of_sign s = (if s = 0 then NaN else if 0 < s then PosInfinity else NegInfinity)"

fun num_add :: "Number \<Rightarrow> Number \<Rightarrow> Number" where
  "num_add NaN _ = NaN"
| "num_add _ NaN = NaN"
| "num_add (Num a) (Num b) = round_double (a + b)"
| "num_add PosInfinity NegInfinity = NaN"
| "num_add NegInfinity PosInfinity = NaN"
| "num_add PosInfinity _ = PosInfinity"
| "num_add _ PosInfinity = PosInfinity"
| "num_add NegInfinity _ = NegInfinity"
| "num_add _ NegInfinity = NegInfinity"

fun num_mul :: "Number \<Rightarrow> Number \<Rightarrow> Number" where
  "num_mul NaN _ = NaN"
| "num_mul _ NaN = NaN"
| "num_mul (Num a) (Num b) = round_double (a * b)"
| "num_mul x y = inf_of_sign (sign_of x * sign_of y)"

fun num_div :: "Number \<Rightarrow> Number \<Rightarrow> Number" where
  "num_div NaN _ = NaN"
| "num_div _ NaN = NaN"
| "num_div (Num a) (Num b) = (if b = 0 then inf_of_sign (sgn a) else round_double (a / b))"
| "num_div (Num a) _ = Num 0"
| "num_div x (Num b) = inf_of_sign (sign_of x * (if b < 0 then - 1 else 1))"
| "num_div _ _ = NaN"

fun num_ge :: "Number \<Rightarrow> Number \<Rightarrow> bool" where
  "num_ge NaN _ = False"
| "num_ge _ NaN = False"
| "num_ge (Num a) (Num b) = (b \<le> a)"
| "num_ge PosInfinity _ = True"
| "num_ge _ NegInfinity = True"
| "num_ge _ _ = False"

fun num_lt :: "Number \<Rightarrow> Number \<Rightarrow> bool" where
  "num_lt NaN _ = False"
| "num_lt _ NaN = False"
| "num_lt (Num a) (Num b) = (a < b)"
| "num_lt PosInfinity _ = False"
| "num_lt _ NegInfinity = False"
| "num_lt _ _ = True"

subsection \<open>Treasury check and pre-flight\<close>

text \<open>
  The treasury balance and the wallet balance are read from the ledger
  (\<open>connection.getBalance\<close>) and are parameters of the model; the amount is the number the
  caller passes (the game component passes \<open>parseFloat(amount) * LAMPORTS_PER_SOL\<close>).
\<close>

definition LAMPORTS_PER_SOL :: Number where
  "LAMPORTS_PER_SOL = Num 1000000000"

text \<open>The object returned by \<open>LuckPaySDK.checkTreasuryBalance\<close> (sdk/luckpay-sdk.ts).\<close>

record TreasuryCheck =
  sufficient :: bool
  available :: Number
  required :: Number

text \<open>The hook's \<open>checkTreasuryBalance\<close> returns the same three fields and two more.\<close>

record TreasuryCheckSOL = TreasuryCheck +
  availableSOL :: Number
  requiredSOL :: Number

definition sdk_checkTreasuryBalance :: "Number \<Rightarrow> Number \<Rightarrow> TreasuryCheck" where
  "sdk_checkTreasuryBalance treasuryBalance sendAmount =
     (let escrowAmount = num_mul sendAmount (Num 2);
          required = num_add sendAmount escrowAmount
      in \<lparr> sufficient = num_ge treasuryBalance required,
           available = treasuryBalance,
           required = required \<rparr>)"

definition hook_checkTreasuryBalance :: "Number \<Rightarrow> Number \<Rightarrow> TreasuryCheckSOL" where
  "hook_checkTreasuryBalance treasuryBalance sendAmount =
     (let escrowAmount = num_mul sendAmount (Num 2);
          requiredForRecipient = sendAmount;
          requiredForRefund = escrowAmount;
          totalRequired = num_add requiredForRecipient requiredForRefund
      in \<lparr> sufficient = num_ge treasuryBalance totalRequired,
           available = treasuryBalance,
           required = totalRequired,
           availableSOL = num_div treasuryBalance LAMPORTS_PER_SOL,
           requiredSOL = num_div totalRequired LAMPORTS_PER_SOL \<rparr>)"

text \<open>
  Errors thrown by the hook: the three pre-flight failures, and a transaction the program
  rejected.
\<close>

datatype ClientError =
    WalletNotConnected
  | InsufficientBalance
  | InsufficientTreasuryBalanceClient
  | TransactionFailed LuckPayError

text \<open>
  The pre-flight part of the hook's \<open>playGame\<close>: the wallet must be connected, the
  wallet balance must not be less than \<open>betAmount * 2 + 10000\<close>, and the treasury check
  must report sufficient; only then does \<open>playGame\<close> go on to build and submit the
  transaction that carries create, request and resolve.
\<close>

definition playGame_preflight ::
  "bool \<Rightarrow> Number \<Rightarrow> Number \<Rightarrow> Number \<Rightarrow> ClientError + unit" where
  "playGame_preflight walletConnected balance treasuryBalance bet_amount =
     (if \<not> walletConnected then Inl WalletNotConnected
      else
        let maxCost = num_mul bet_amount (Num 2);
            minRequired = num_add maxCost (Num 10000)
        in if num_lt balance minRequired then Inl InsufficientBalance
           else
             let treasuryCheck = hook_checkTreasuryBalance treasuryBalance bet_amount
             in if \<not> sufficient treasuryCheck then Inl InsufficientTreasuryBalanceClient
                else Inr ())"

text \<open>
  The hook's \<open>initializeConfig\<close> (ui/app/hooks/useLuckPaySimple.ts): it throws without a
  wallet, returns the Config address when the Config account already exists, and
  otherwise submits the initialisation with the wallet as authority and a maximum bet of
  \<open>5 * LAMPORTS_PER_SOL\<close>, returning the same address. A rejected transaction is thrown.
\<close>

definition hook_initializeConfig ::
  "nat \<Rightarrow> Pubkey option \<Rightarrow> Pubkey \<Rightarrow> Ledger \<Rightarrow> ClientError + (Pubkey \<times> Ledger)" where
  "hook_initializeConfig house_edge publicKey configPda L =
     (case publicKey of
        None \<Rightarrow> Inl WalletNotConnected
      | Some caller \<Rightarrow>
          (case config L of
             Some _ \<Rightarrow> Inr (configPda, L)
           | None \<Rightarrow>
               (case initialize_config caller house_edge 5000000000 L of
                  Inl e \<Rightarrow> Inl (TransactionFailed e)
                | Inr L' \<Rightarrow> Inr (configPda, L'))))"

text \<open>
  The figures the hook's \<open>playGame\<close> reports with a result, in SOL. They are computed by
  the client from the bet amount and the outcome alone, in one way when the wager record
  is still found after the transaction and in another when it is not; they do not read
  what the program transferred.
\<close>

record GameFigures =
  playerCost :: Number
  playerRefund :: Number
  recipientReceived :: Number

definition playGame_figures :: "bool \<Rightarrow> bool \<Rightarrow> Number \<Rightarrow> GameFigures" where
  "playGame_figures accountFound player_won bet_amount =
     (let sol = (\<lambda>n. num_div n LAMPORTS_PER_SOL) in
      if accountFound then
        (if player_won then
           \<lparr> playerCost = sol (num_mul bet_amount (Num 2)),
             playerRefund = sol bet_amount,
             recipientReceived = sol bet_amount \<rparr>
         else
           \<lparr> playerCost = sol (num_mul bet_amount (Num 2)),
             playerRefund = Num 0,
             recipientReceived = sol bet_amount \<rparr>)
      else
        (if player_won then
           \<lparr> playerCost = Num 0,
             playerRefund = sol (num_mul bet_amount (Num 2)),
             recipientReceived = sol bet_amount \<rparr>
         else
           \<lparr> playerCost = sol (num_mul bet_amount (Num 2)),
             playerRefund = Num 0,
             recipientReceived = sol bet_amount \<rparr>))"

section \<open>Fixtures\<close>

text \<open>
  The values the tests use: a Config with a maximum bet of 5 SOL and a house edge of 200,
  a bettor (key 7) funded with 5 SOL, a recipient (key 9) funded with 0.5 SOL, and a wager
  of 0.1 SOL on Heads. The allocation deposit is 1788720 lamports.
\<close>

definition fixture_config :: Config where
  "fixture_config = \<lparr> authority = 1, houseEdge = 200, maxBetAmount = 5000000000,
                       totalGames = 0, totalVolume = 0 \<rparr>"

definition fixture_game :: "u8 \<Rightarrow> GameState \<Rightarrow> Game" where
  "fixture_game d s = \<lparr> player = 7, recipient = 9, betAmount = 100000000, choice = Heads,
                        discountPercentage = d, gameState = s, createdAt = 1700000000,
                        vrfClientState = None, result = None, bump = 255 \<rparr>"

definition fixture_empty :: Ledger where
  "fixture_empty = \<lparr> config = None, games = (\<lambda>_. None),
                      lamports = (\<lambda>_. 0)(7 := 5000000000, 9 := 500000000),
                      treasury = 0 \<rparr>"

definition fixture_ready :: Ledger where
  "fixture_ready = fixture_empty\<lparr> config := Some fixture_config \<rparr>"

definition fixture_ledger :: "u8 \<Rightarrow> GameState \<Rightarrow> Ledger" where
  "fixture_ledger d s = fixture_empty\<lparr> config := Some fixture_config,
       games := (\<lambda>_. None)(7 \<mapsto> \<lparr> rentLamports = 1788720, data = fixture_game d s \<rparr>) \<rparr>"

lemmas fixture_defs = fixture_config_def fixture_game_def fixture_empty_def
  fixture_ready_def fixture_ledger_def

lemmas engine_defs = resolve_game_def resolve_outcome_def compute_payout_def
  transfer_payout_def update_counters_def checked_add_def checked_sub_def checked_mul_def
  U64_MAX_def Let_def

section \<open>Payout computation\<close>

lemma compute_payout_win:
  assumes "compute_payout b d True = Inr p"
  shows "unat d \<le> 100 \<and> exposure p = unat b * 2
       \<and> recipientReceipt p = unat b * (100 - unat d) div 100
       \<and> bettorRefund p = unat b * 2 - recipientReceipt p
       \<and> recipientReceipt p \<le> unat b * 2"
  using assms
  by (auto simp: compute_payout_def checked_mul_def checked_sub_def
           split: option.splits if_splits)

lemma compute_payout_loss:
  assumes "compute_payout b d False = Inr p"
  shows "exposure p = unat b * 2 \<and> recipientReceipt p = unat b * 2 \<and> bettorRefund p = 0"
  using assms
  by (auto simp: compute_payout_def checked_mul_def split: option.splits if_splits)

lemma compute_payout_sum:
  assumes "compute_payout b d w = Inr p"
  shows "recipientReceipt p + bettorRefund p = unat b * 2 \<and> exposure p = unat b * 2"
proof (cases w)
  case True
  with assms compute_payout_win [of b d p] show ?thesis by simp
next
  case False
  with assms compute_payout_loss [of b d p] show ?thesis by simp
qed

text \<open>The payout is defined for every discount up to 100 and every bet whose hundredfold
  fits 64 bits, whatever the outcome.\<close>

lemma compute_payout_total:
  assumes "unat d \<le> 100" and "unat b * 100 \<le> U64_MAX"
  shows "\<exists>p. compute_payout b d w = Inr p"
proof -
  have a: "unat b * 2 \<le> U64_MAX" using assms(2) by simp
  have b: "unat b * (100 - unat d) \<le> U64_MAX"
    using assms(2) by (meson diff_le_self le_trans mult_le_mono2)
  have c: "unat b * (100 - unat d) div 100 \<le> unat b * 2"
  proof -
    have "unat b * (100 - unat d) div 100 \<le> unat b * 100 div 100"
      by (rule div_le_mono) simp
    then show ?thesis by simp
  qed
  show ?thesis using a b c assms(1)
    by (simp add: compute_payout_def checked_mul_def checked_sub_def)
qed

lemma transfer_payout_SomeD:
  assumes "transfer_payout g p (bal, tre) = Some (bal', tre')"
      and "recipientReceipt p + bettorRefund p = exposure p"
  shows "tre' = tre \<and> exposure p \<le> bal (player g)
       \<and> (\<forall>k. k \<noteq> player g \<longrightarrow> k \<noteq> recipient g \<longrightarrow> bal' k = bal k)
       \<and> (player g \<noteq> recipient g \<longrightarrow>
            bal' (recipient g) = bal (recipient g) + recipientReceipt p
          \<and> bal' (player g) + recipientReceipt p = bal (player g))
       \<and> (player g = recipient g \<longrightarrow> bal' (player g) = bal (player g))"
  using assms
  by (auto simp: transfer_payout_def Let_def split: if_splits)

section \<open>Resolution\<close>

text \<open>What a successful \<open>resolve_game\<close> went through, step by step.\<close>

lemma resolve_game_InrD:
  assumes "resolve_game a vr L = Inr L'"
  shows "\<exists>acct cfg res p bal tre cfg'.
           games L a = Some acct \<and> config L = Some cfg
         \<and> resolve_outcome (data acct) vr = Inr res
         \<and> compute_payout (betAmount (data acct)) (discountPercentage (data acct))
              (playerWon res) = Inr p
         \<and> transfer_payout (data acct) p (lamports L, treasury L) = Some (bal, tre)
         \<and> update_counters cfg (betAmount (data acct)) = Some cfg'
         \<and> L' = L\<lparr> config := Some cfg',
                    games := (games L)(a \<mapsto>
                      acct\<lparr> data := (data acct)\<lparr> gameState := Resolved,
                                                  result := Some res \<rparr> \<rparr>),
                    lamports := bal, treasury := tre \<rparr>"
  using assms
  by (auto simp: resolve_game_def Let_def split: option.splits sum.splits prod.splits)

text \<open>
  Resolution does return a result: for a wager in RandomnessRequested with a discount up
  to 100, a bet whose hundredfold fits 64 bits, a bettor who holds the exposure, counters
  with room, and a random byte at hand.
\<close>

lemma resolve_game_succeeds:
  assumes "games L a = Some acct" and "config L = Some cfg"
      and "gameState (data acct) = RandomnessRequested"
      and "unat (discountPercentage (data acct)) \<le> 100"
      and "unat (betAmount (data acct)) * 100 \<le> U64_MAX"
      and "unat (betAmount (data acct)) * 2 \<le> lamports L (player (data acct))"
      and "unat (totalGames cfg) + 1 \<le> U64_MAX"
      and "unat (totalVolume cfg) + unat (betAmount (data acct)) \<le> U64_MAX"
  shows "\<exists>L'. resolve_game a (Inr (b # rest)) L = Inr L'"
proof -
  let ?g = "data acct"
  let ?won = "(if b mod 2 = 0 then Heads else Tails) = choice ?g"
  have o: "resolve_outcome ?g (Inr (b # rest))
             = Inr \<lparr> coinResult = (if b mod 2 = 0 then Heads else Tails),
                     playerWon = ?won, randomValue = b \<rparr>"
    using assms(3) by (simp add: resolve_outcome_def Let_def)
  from compute_payout_total [OF assms(4,5)] obtain p where
    p: "compute_payout (betAmount ?g) (discountPercentage ?g) ?won = Inr p" by blast
  from compute_payout_sum [OF p] assms(6)
  have "\<not> lamports L (player ?g) < exposure p" by simp
  then obtain bal tre where
    t: "transfer_payout ?g p (lamports L, treasury L) = Some (bal, tre)"
    by (simp add: transfer_payout_def Let_def)
  from assms(7,8) obtain cfg' where u: "update_counters cfg (betAmount ?g) = Some cfg'"
    by (simp add: update_counters_def checked_add_def)
  show ?thesis using assms(1,2) o p t u
    by (simp add: resolve_game_def Let_def)
qed

lemma resolve_game_writes_outcome:
  assumes "resolve_game a vr L = Inr L'" and "games L a = Some acct"
  shows "\<exists>acct' res. games L' a = Some acct' \<and> result (data acct') = Some res
           \<and> resolve_outcome (data acct) vr = Inr res
           \<and> choice (data acct') = choice (data acct)"
  using resolve_game_InrD [OF assms(1)] assms(2) by auto

text \<open>
  C1. For every resolved wager the recipient's receipt plus the bettor's refund equals
  exactly \<open>betAmount * 2\<close>, whether the bettor won or lost; nothing is lost or created.
  The theorem is about any successful \<open>resolve_game\<close>: the payout it computed for the
  recorded outcome sums to twice the bet, the treasury's balance is unchanged, and, for a
  bettor distinct from the recipient, the recipient's balance grows by the receipt while
  the bettor's balance falls by the exposure less the refund. By
  \<open>resolve_game_succeeds\<close>, every discount up to 100 and every positive bet within the
  arithmetic's range can be resolved.
\<close>

theorem resolve_game_conserves_exposure:
  assumes "resolve_game a vr L = Inr L'" and "games L a = Some acct"
  shows "\<exists>acct' res p.
           games L' a = Some acct' \<and> gameState (data acct') = Resolved
         \<and> result (data acct') = Some res
         \<and> compute_payout (betAmount (data acct)) (discountPercentage (data acct))
              (playerWon res) = Inr p
         \<and> recipientReceipt p + bettorRefund p = unat (betAmount (data acct)) * 2
         \<and> treasury L' = treasury L
         \<and> (player (data acct) \<noteq> recipient (data acct) \<longrightarrow>
              lamports L' (recipient (data acct))
                = lamports L (recipient (data acct)) + recipientReceipt p
            \<and> lamports L' (player (data acct)) + unat (betAmount (data acct)) * 2
                = lamports L (player (data acct)) + bettorRefund p)"
proof -
  from resolve_game_InrD [OF assms(1)] assms(2)
  obtain cfg res p bal tre cfg' where
        c: "compute_payout (betAmount (data acct)) (discountPercentage (data acct))
              (playerWon res) = Inr p"
    and t: "transfer_payout (data acct) p (lamports L, treasury L) = Some (bal, tre)"
    and l: "L' = L\<lparr> config := Some cfg',
                    games := (games L)(a \<mapsto>
                      acct\<lparr> data := (data acct)\<lparr> gameState := Resolved,
                                                  result := Some res \<rparr> \<rparr>),
                    lamports := bal, treasury := tre \<rparr>"
    by auto
  from compute_payout_sum [OF c]
  have s: "recipientReceipt p + bettorRefund p = unat (betAmount (data acct)) * 2"
    and e: "exposure p = unat (betAmount (data acct)) * 2" by simp_all
  from s e have se: "recipientReceipt p + bettorRefund p = exposure p" by simp
  note tp = transfer_payout_SomeD [OF t se]
  have b: "player (data acct) \<noteq> recipient (data acct) \<longrightarrow>
              bal (recipient (data acct))
                = lamports L (recipient (data acct)) + recipientReceipt p
            \<and> bal (player (data acct)) + unat (betAmount (data acct)) * 2
                = lamports L (player (data acct)) + bettorRefund p"
    using tp s by auto
  show ?thesis using c s tp b by (simp add: l)
qed

text \<open>
  Witness: the fixture wager of 0.1 SOL at a discount of 75, resolved with the even byte
  140 (a win: the recipient gains 0.025 SOL) and with the odd byte 141 (a loss: the
  recipient gains 0.2 SOL); the bettor pays what the recipient gains.
\<close>

theorem resolve_game_conserves_exposure_witness:
  "(\<exists>L'. resolve_game 7 (Inr [140]) (fixture_ledger 75 RandomnessRequested) = Inr L'
        \<and> lamports L' 9 = 500000000 + 25000000
        \<and> lamports L' 7 = 5000000000 - 25000000 \<and> treasury L' = 0)
   \<and> (\<exists>L'. resolve_game 7 (Inr [141]) (fixture_ledger 75 RandomnessRequested) = Inr L'
        \<and> lamports L' 9 = 500000000 + 200000000
        \<and> lamports L' 7 = 5000000000 - 200000000 \<and> treasury L' = 0)"
proof -
  let ?L = "fixture_ledger 75 RandomnessRequested"
  let ?acct = "\<lparr> rentLamports = 1788720, data = fixture_game 75 RandomnessRequested \<rparr>"
  have g: "games ?L 7 = Some ?acct" by (simp add: fixture_defs)
  obtain W where w: "resolve_game 7 (Inr [140]) ?L = Inr W"
    by (simp add: engine_defs fixture_defs)
  obtain X where x: "resolve_game 7 (Inr [141]) ?L = Inr X"
    by (simp add: engine_defs fixture_defs)
  have pw: "compute_payout 100000000 75 True
              = Inr \<lparr> exposure = 200000000, recipientReceipt = 25000000,
                      bettorRefund = 175000000 \<rparr>"
    by (simp add: engine_defs)
  have pl: "compute_payout 100000000 75 False
              = Inr \<lparr> exposure = 200000000, recipientReceipt = 200000000,
                      bettorRefund = 0 \<rparr>"
    by (simp add: engine_defs)
  have rw: "resolve_outcome (fixture_game 75 RandomnessRequested) (Inr [140])
              = Inr \<lparr> coinResult = Heads, playerWon = True, randomValue = 140 \<rparr>"
    by (simp add: engine_defs fixture_defs)
  have rx: "resolve_outcome (fixture_game 75 RandomnessRequested) (Inr [141])
              = Inr \<lparr> coinResult = Tails, playerWon = False, randomValue = 141 \<rparr>"
    by (simp add: engine_defs fixture_defs)
  from resolve_game_conserves_exposure [OF w g] resolve_game_InrD [OF w] g rw pw
  have 1: "lamports W 9 = 500000000 + 25000000 \<and> lamports W 7 = 5000000000 - 25000000
           \<and> treasury W = 0"
    by (auto simp: fixture_defs)
  from resolve_game_conserves_exposure [OF x g] resolve_game_InrD [OF x] g rx pl
  have 2: "lamports X 9 = 500000000 + 200000000 \<and> lamports X 7 = 5000000000 - 200000000
           \<and> treasury X = 0"
    by (auto simp: fixture_defs)
  from w x 1 2 show ?thesis by blast
qed

text \<open>
  C2. For every wager resolved with bettor-won, the recipient receives
  \<open>betAmount * (100 - discountPct) div 100\<close> (integer floor division) and the bettor is
  refunded \<open>betAmount * 2\<close> minus that receipt; for every wager resolved with bettor-lost,
  the recipient receives \<open>betAmount * 2\<close> and the bettor is refunded 0. The amounts are
  those of the payout and, for a bettor distinct from the recipient, those by which the
  balances move.
\<close>

theorem resolve_game_payout_law:
  assumes "resolve_game a vr L = Inr L'" and "games L a = Some acct"
      and "games L' a = Some acct'" and "result (data acct') = Some res"
  shows "(playerWon res \<longrightarrow>
            compute_payout (betAmount (data acct)) (discountPercentage (data acct)) True
              = Inr \<lparr> exposure = unat (betAmount (data acct)) * 2,
                      recipientReceipt =
                        unat (betAmount (data acct))
                          * (100 - unat (discountPercentage (data acct))) div 100,
                      bettorRefund =
                        unat (betAmount (data acct)) * 2
                          - unat (betAmount (data acct))
                              * (100 - unat (discountPercentage (data acct))) div 100 \<rparr>
          \<and> unat (discountPercentage (data acct)) \<le> 100
          \<and> (player (data acct) \<noteq> recipient (data acct) \<longrightarrow>
                lamports L' (recipient (data acct))
                  = lamports L (recipient (data acct))
                    + unat (betAmount (data acct))
                        * (100 - unat (discountPercentage (data acct))) div 100
              \<and> lamports L' (player (data acct))
                    + unat (betAmount (data acct))
                        * (100 - unat (discountPercentage (data acct))) div 100
                  = lamports L (player (data acct))))
       \<and> (\<not> playerWon res \<longrightarrow>
            compute_payout (betAmount (data acct)) (discountPercentage (data acct)) False
              = Inr \<lparr> exposure = unat (betAmount (data acct)) * 2,
                      recipientReceipt = unat (betAmount (data acct)) * 2,
                      bettorRefund = 0 \<rparr>
          \<and> (player (data acct) \<noteq> recipient (data acct) \<longrightarrow>
                lamports L' (recipient (data acct))
                  = lamports L (recipient (data acct)) + unat (betAmount (data acct)) * 2
              \<and> lamports L' (player (data acct)) + unat (betAmount (data acct)) * 2
                  = lamports L (player (data acct))))"
proof -
  from resolve_game_InrD [OF assms(1)] assms(2)
  obtain cfg res0 p bal tre cfg' where
        c: "compute_payout (betAmount (data acct)) (discountPercentage (data acct))
              (playerWon res0) = Inr p"
    and t: "transfer_payout (data acct) p (lamports L, treasury L) = Some (bal, tre)"
    and l: "L' = L\<lparr> config := Some cfg',
                    games := (games L)(a \<mapsto>
                      acct\<lparr> data := (data acct)\<lparr> gameState := Resolved,
                                                  result := Some res0 \<rparr> \<rparr>),
                    lamports := bal, treasury := tre \<rparr>"
    by auto
  from l assms(3,4) have r: "res0 = res" by auto
  have lb: "lamports L' = bal" by (simp add: l)
  from compute_payout_sum [OF c]
  have se: "recipientReceipt p + bettorRefund p = exposure p" by simp
  note tp = transfer_payout_SomeD [OF t se]
  show ?thesis
  proof (cases "playerWon res")
    case True
    with c r have cw:
      "compute_payout (betAmount (data acct)) (discountPercentage (data acct)) True = Inr p"
      by simp
    from compute_payout_win [OF cw] have
      "p = \<lparr> exposure = unat (betAmount (data acct)) * 2,
             recipientReceipt =
               unat (betAmount (data acct))
                 * (100 - unat (discountPercentage (data acct))) div 100,
             bettorRefund =
               unat (betAmount (data acct)) * 2
                 - unat (betAmount (data acct))
                     * (100 - unat (discountPercentage (data acct))) div 100 \<rparr>"
      by simp
    with True cw compute_payout_win [OF cw] tp lb show ?thesis by simp
  next
    case False
    with c r have cl:
      "compute_payout (betAmount (data acct)) (discountPercentage (data acct)) False = Inr p"
      by simp
    from compute_payout_loss [OF cl] have
      "p = \<lparr> exposure = unat (betAmount (data acct)) * 2,
             recipientReceipt = unat (betAmount (data acct)) * 2,
             bettorRefund = 0 \<rparr>"
      by simp
    with False cl compute_payout_loss [OF cl] tp lb show ?thesis by simp
  qed
qed

text \<open>
  Witness: the fixture wager at a discount of 100 won with the byte 140 (the recipient
  receives 0 and the bettor keeps the whole exposure), and at a discount of 0 lost with
  the byte 141 (the recipient receives 0.2 SOL, paid by the bettor).
\<close>

theorem resolve_game_payout_law_witness:
  "(\<exists>L'. resolve_game 7 (Inr [140]) (fixture_ledger 100 RandomnessRequested) = Inr L'
         \<and> lamports L' 9 = 500000000 \<and> lamports L' 7 = 5000000000)
   \<and> compute_payout 100000000 100 True
        = Inr \<lparr> exposure = 200000000, recipientReceipt = 0, bettorRefund = 200000000 \<rparr>
   \<and> (\<exists>L'. resolve_game 7 (Inr [141]) (fixture_ledger 0 RandomnessRequested) = Inr L'
         \<and> lamports L' 9 = 500000000 + 200000000
         \<and> lamports L' 7 + 200000000 = 5000000000)
   \<and> compute_payout 100000000 0 False
        = Inr \<lparr> exposure = 200000000, recipientReceipt = 200000000, bettorRefund = 0 \<rparr>"
proof -
  let ?A = "fixture_ledger 100 RandomnessRequested"
  let ?B = "fixture_ledger 0 RandomnessRequested"
  let ?a = "\<lparr> rentLamports = 1788720, data = fixture_game 100 RandomnessRequested \<rparr>"
  let ?b = "\<lparr> rentLamports = 1788720, data = fixture_game 0 RandomnessRequested \<rparr>"
  have ga: "games ?A 7 = Some ?a" and gb: "games ?B 7 = Some ?b"
    by (simp_all add: fixture_defs)
  obtain W where w: "resolve_game 7 (Inr [140]) ?A = Inr W"
    by (simp add: engine_defs fixture_defs)
  obtain X where x: "resolve_game 7 (Inr [141]) ?B = Inr X"
    by (simp add: engine_defs fixture_defs)
  from resolve_game_writes_outcome [OF w ga] obtain wa wr where
    wa: "games W 7 = Some wa" "result (data wa) = Some wr"
        "resolve_outcome (data ?a) (Inr [140]) = Inr wr" by auto
  from resolve_game_writes_outcome [OF x gb] obtain xa xr where
    xa: "games X 7 = Some xa" "result (data xa) = Some xr"
        "resolve_outcome (data ?b) (Inr [141]) = Inr xr" by auto
  from wa(3) have won: "playerWon wr" by (auto simp: engine_defs fixture_defs)
  from xa(3) have lost: "\<not> playerWon xr" by (auto simp: engine_defs fixture_defs)
  from resolve_game_payout_law [OF w ga wa(1,2)] won
  have 1: "lamports W 9 = 500000000 \<and> lamports W 7 = 5000000000
         \<and> compute_payout 100000000 100 True
             = Inr \<lparr> exposure = 200000000, recipientReceipt = 0,
                     bettorRefund = 200000000 \<rparr>"
    by (simp add: fixture_defs)
  from resolve_game_payout_law [OF x gb xa(1,2)] lost
  have 2: "lamports X 9 = 500000000 + 200000000 \<and> lamports X 7 + 200000000 = 5000000000
         \<and> compute_payout 100000000 0 False
             = Inr \<lparr> exposure = 200000000, recipientReceipt = 200000000,
                     bettorRefund = 0 \<rparr>"
    by (simp add: fixture_defs)
  from w x 1 2 show ?thesis by blast
qed

text \<open>
  The figures the hook reports with a result are not these amounts: whatever the outcome
  and the discount, it reports the recipient as having received the bet amount.
\<close>

lemma playGame_figures_recipientReceived:
  "recipientReceived (playGame_figures found won bet) = num_div bet LAMPORTS_PER_SOL"
  by (simp add: playGame_figures_def Let_def)

section \<open>Outcome\<close>

lemma u8_mod2_even: "(b mod 2 = 0) = even (unat b)" for b :: u8
proof -
  have "(b mod 2 = 0) = (unat (b mod 2) = 0)" by (simp add: unat_0_iff)
  also have "\<dots> = (unat b mod 2 = 0)" by (simp add: unat_mod)
  also have "\<dots> = even (unat b)" by presburger
  finally show ?thesis .
qed

text \<open>
  C4. For every raw random byte \<open>b\<close> obtained during resolution, the observed side is
  Heads if and only if \<open>b\<close> is even (Tails if and only if \<open>b\<close> is odd), and the
  bettor-won flag of the result is true if and only if the observed side equals the
  wager's chosen side. The byte itself is the result's raw random value. By
  \<open>resolve_game_writes_outcome\<close> this result is the one \<open>resolve_game\<close> writes into the
  record.
\<close>

theorem resolve_outcome_parity:
  assumes "resolve_outcome game (Inr (b # rest)) = Inr res"
  shows "randomValue res = b
       \<and> (coinResult res = Heads) = even (unat b)
       \<and> (coinResult res = Tails) = odd (unat b)
       \<and> playerWon res = (coinResult res = choice game)"
  using assms
  by (auto simp: resolve_outcome_def Let_def u8_mod2_even split: if_splits)

text \<open>Witness: the bytes 140 and 141 against a wager on Heads.\<close>

theorem resolve_outcome_parity_witness:
  "resolve_outcome (fixture_game 100 RandomnessRequested) (Inr [140])
     = Inr \<lparr> coinResult = Heads, playerWon = True, randomValue = 140 \<rparr>
   \<and> even (unat (140 :: u8))
   \<and> resolve_outcome (fixture_game 100 RandomnessRequested) (Inr [141])
     = Inr \<lparr> coinResult = Tails, playerWon = False, randomValue = 141 \<rparr>
   \<and> odd (unat (141 :: u8))"
proof -
  have a: "resolve_outcome (fixture_game 100 RandomnessRequested) (Inr (140 # []))
     = Inr \<lparr> coinResult = Heads, playerWon = True, randomValue = 140 \<rparr>"
    by (simp add: resolve_outcome_def fixture_game_def)
  have b: "resolve_outcome (fixture_game 100 RandomnessRequested) (Inr (141 # []))
     = Inr \<lparr> coinResult = Tails, playerWon = False, randomValue = 141 \<rparr>"
    by (simp add: resolve_outcome_def fixture_game_def)
  from resolve_outcome_parity [OF a] resolve_outcome_parity [OF b] a b
  show ?thesis by simp
qed

section \<open>Lifecycle\<close>

lemma request_randomness_guard:
  assumes "games L a = Some acct" and "gameState (data acct) \<noteq> Created"
  shows "request_randomness a vrf cpi L = Inl InvalidGameState"
  using assms by (simp add: request_randomness_def Let_def)

lemma resolve_game_guard:
  assumes "games L a = Some acct" and "config L = Some cfg"
      and "gameState (data acct) \<noteq> RandomnessRequested"
  shows "resolve_game a vr L = Inl InvalidGameState"
  using assms by (simp add: resolve_game_def resolve_outcome_def Let_def)

lemma close_game_guard:
  assumes "games L a = Some acct" and "gameState (data acct) \<noteq> Resolved"
  shows "close_game a L = Inl InvalidGameState"
  using assms by (simp add: close_game_def Let_def)

lemma absent_record_fails:
  assumes "games L a = None"
  shows "request_randomness a vrf cpi L = Inl AccountNotInitialized
       \<and> resolve_game a vr L = Inl AccountNotInitialized
       \<and> close_game a L = Inl AccountNotInitialized
       \<and> fetch_game a L = Inl AccountNotInitialized"
  using assms
  by (simp add: request_randomness_def resolve_game_def close_game_def fetch_game_def)

lemma request_randomness_move:
  assumes "request_randomness a vrf cpi L = Inr L'"
  shows "state_at L a = Some Created \<and> state_at L' a = Some RandomnessRequested
       \<and> (\<forall>k. k \<noteq> a \<longrightarrow> games L' k = games L k)"
  using assms
  by (auto simp: request_randomness_def state_at_def Let_def
           split: option.splits if_splits sum.splits)

lemma resolve_game_move:
  assumes "resolve_game a vr L = Inr L'"
  shows "state_at L a = Some RandomnessRequested \<and> state_at L' a = Some Resolved
       \<and> (\<forall>k. k \<noteq> a \<longrightarrow> games L' k = games L k)"
proof -
  from resolve_game_InrD [OF assms] obtain acct res cfg' bal tre where
        g: "games L a = Some acct"
    and o: "resolve_outcome (data acct) vr = Inr res"
    and l: "L' = L\<lparr> config := Some cfg',
                    games := (games L)(a \<mapsto>
                      acct\<lparr> data := (data acct)\<lparr> gameState := Resolved,
                                                  result := Some res \<rparr> \<rparr>),
                    lamports := bal, treasury := tre \<rparr>"
    by auto
  from o have "gameState (data acct) = RandomnessRequested"
    by (auto simp: resolve_outcome_def split: if_splits)
  with g show ?thesis by (simp add: l state_at_def)
qed

lemma close_game_move:
  assumes "close_game a L = Inr L'"
  shows "state_at L a = Some Resolved \<and> state_at L' a = None
       \<and> (\<forall>k. k \<noteq> a \<longrightarrow> games L' k = games L k)"
  using assms
  by (auto simp: close_game_def state_at_def Let_def split: option.splits if_splits)

lemma create_game_move:
  assumes "create_game p amt r s d now rent b L = Inr L'"
  shows "state_at L p = None \<and> state_at L' p = Some Created
       \<and> (\<forall>k. k \<noteq> p \<longrightarrow> games L' k = games L k)"
  using assms
  by (auto simp: create_game_def state_at_def split: option.splits if_splits)

lemma initialize_config_games:
  assumes "initialize_config c he mb L = Inr L'"
  shows "games L' = games L"
  using assms by (auto simp: initialize_config_def split: option.splits)

lemma lifecycle_move_refl: "lifecycle_move s s"
  by (cases s) (auto, metis GameState.exhaust lifecycle_move.simps)

lemma state_at_same:
  assumes "games L' k = games L k"
  shows "state_at L' k = state_at L k"
  using assms by (simp add: state_at_def)

lemma lifecycle_move_other:
  assumes "\<forall>k. k \<noteq> p \<longrightarrow> games L' k = games L k" and "a \<noteq> p"
  shows "lifecycle_move (state_at L a) (state_at L' a)"
  using assms state_at_same [of L' a L] by (simp add: lifecycle_move_refl)

text \<open>Whatever instruction succeeds, every record makes a move of the lifecycle.\<close>

lemma execute_lifecycle_move:
  assumes "execute ix L = Inr L'"
  shows "lifecycle_move (state_at L a) (state_at L' a)"
proof (cases ix)
  case (InitializeConfig c he mb)
  with assms have "games L' = games L" by (simp add: initialize_config_games)
  then show ?thesis by (simp add: state_at_def lifecycle_move_refl)
next
  case (CreateGame p amt r s d now rent b)
  with assms have m: "create_game p amt r s d now rent b L = Inr L'" by simp
  from create_game_move [OF m] lifecycle_move_other [of p L' L a] show ?thesis
    by (cases "a = p") simp_all
next
  case (RequestRandomness pda vrf cpi)
  with assms have m: "request_randomness pda vrf cpi L = Inr L'" by simp
  from request_randomness_move [OF m] lifecycle_move_other [of pda L' L a] show ?thesis
    by (cases "a = pda") simp_all
next
  case (ResolveGame pda vr)
  with assms have m: "resolve_game pda vr L = Inr L'" by simp
  from resolve_game_move [OF m] lifecycle_move_other [of pda L' L a] show ?thesis
    by (cases "a = pda") simp_all
next
  case (CloseGame pda)
  with assms have m: "close_game pda L = Inr L'" by simp
  from close_game_move [OF m] lifecycle_move_other [of pda L' L a] show ?thesis
    by (cases "a = pda") simp_all
qed

text \<open>
  C3. The wager lifecycle only moves strictly forward, Created to RandomnessRequested to
  Resolved, with no skipping, no backward transition and no re-entry:
  \<open>request_randomness\<close> fails \<open>InvalidGameState\<close> unless the state is Created,
  \<open>resolve_game\<close> fails \<open>InvalidGameState\<close> unless the state is RandomnessRequested (the
  Config being initialised, as it is wherever a wager was created), and \<open>close_game\<close>
  fails \<open>InvalidGameState\<close>, or \<open>AccountNotInitialized\<close> when there is no record, unless
  the state is Resolved. A successful request takes Created to RandomnessRequested, a
  successful resolution takes RandomnessRequested to Resolved, a successful close takes
  Resolved to no record, and no instruction of the program moves any record otherwise.
\<close>

theorem lifecycle_strictly_forward:
  "(games L a = Some acct \<and> gameState (data acct) \<noteq> Created
      \<longrightarrow> request_randomness a vrf cpi L = Inl InvalidGameState)
   \<and> (games L a = Some acct \<and> config L = Some cfg
        \<and> gameState (data acct) \<noteq> RandomnessRequested
      \<longrightarrow> resolve_game a vr L = Inl InvalidGameState)
   \<and> (games L a = Some acct \<and> gameState (data acct) \<noteq> Resolved
      \<longrightarrow> close_game a L = Inl InvalidGameState)
   \<and> (games L a = None \<longrightarrow> close_game a L = Inl AccountNotInitialized)
   \<and> (request_randomness a vrf cpi L = Inr L1
      \<longrightarrow> state_at L a = Some Created \<and> state_at L1 a = Some RandomnessRequested)
   \<and> (resolve_game a vr L = Inr L2
      \<longrightarrow> state_at L a = Some RandomnessRequested \<and> state_at L2 a = Some Resolved)
   \<and> (close_game a L = Inr L3
      \<longrightarrow> state_at L a = Some Resolved \<and> state_at L3 a = None)
   \<and> (execute ix L = Inr L4 \<longrightarrow> lifecycle_move (state_at L k) (state_at L4 k))"
  using request_randomness_guard [of L a acct vrf cpi]
        resolve_game_guard [of L a acct cfg vr]
        close_game_guard [of L a acct]
        absent_record_fails [of L a vrf cpi vr]
        request_randomness_move [of a vrf cpi L L1]
        resolve_game_move [of a vr L L2]
        close_game_move [of a L L3]
        execute_lifecycle_move [of ix L L4 k]
  by blast

text \<open>
  Witness: the fixture wager in each of its three states. From Created, resolution and
  closure fail and the request succeeds; from RandomnessRequested, the request and
  closure fail and resolution succeeds; from Resolved, the request and resolution fail and
  closure succeeds; with no record, closure fails \<open>AccountNotInitialized\<close>.
\<close>

theorem lifecycle_strictly_forward_witness:
  "resolve_game 7 (Inr [140]) (fixture_ledger 50 Created) = Inl InvalidGameState
   \<and> close_game 7 (fixture_ledger 50 Created) = Inl InvalidGameState
   \<and> (\<exists>L1. request_randomness 7 3 (Inr ()) (fixture_ledger 50 Created) = Inr L1
          \<and> state_at L1 7 = Some RandomnessRequested)
   \<and> request_randomness 7 3 (Inr ()) (fixture_ledger 50 RandomnessRequested)
       = Inl InvalidGameState
   \<and> close_game 7 (fixture_ledger 50 RandomnessRequested) = Inl InvalidGameState
   \<and> (\<exists>L2. resolve_game 7 (Inr [140]) (fixture_ledger 50 RandomnessRequested) = Inr L2
          \<and> state_at L2 7 = Some Resolved)
   \<and> request_randomness 7 3 (Inr ()) (fixture_ledger 50 Resolved) = Inl InvalidGameState
   \<and> resolve_game 7 (Inr [140]) (fixture_ledger 50 Resolved) = Inl InvalidGameState
   \<and> (\<exists>L3. close_game 7 (fixture_ledger 50 Resolved) = Inr L3 \<and> state_at L3 7 = None)
   \<and> close_game 7 fixture_ready = Inl AccountNotInitialized"
proof -
  let ?C = "fixture_ledger 50 Created"
  let ?R = "fixture_ledger 50 RandomnessRequested"
  let ?D = "fixture_ledger 50 Resolved"
  have g: "games ?C 7 = Some \<lparr> rentLamports = 1788720, data = fixture_game 50 Created \<rparr>"
          "games ?R 7 = Some \<lparr> rentLamports = 1788720,
                                data = fixture_game 50 RandomnessRequested \<rparr>"
          "games ?D 7 = Some \<lparr> rentLamports = 1788720, data = fixture_game 50 Resolved \<rparr>"
          "games fixture_ready 7 = None"
    by (simp_all add: fixture_defs)
  have c: "config ?C = Some fixture_config" "config ?R = Some fixture_config"
          "config ?D = Some fixture_config"
    by (simp_all add: fixture_defs)
  have s: "gameState (fixture_game 50 Created) = Created"
          "gameState (fixture_game 50 RandomnessRequested) = RandomnessRequested"
          "gameState (fixture_game 50 Resolved) = Resolved"
    by (simp_all add: fixture_defs)
  obtain L1 where l1: "request_randomness 7 3 (Inr ()) ?C = Inr L1"
    by (simp add: request_randomness_def fixture_defs Let_def)
  obtain L2 where l2: "resolve_game 7 (Inr [140]) ?R = Inr L2"
    by (simp add: engine_defs fixture_defs)
  obtain L3 where l3: "close_game 7 ?D = Inr L3"
    by (simp add: close_game_def fixture_defs Let_def)
  note t = lifecycle_strictly_forward
  from t [of ?C 7 "\<lparr> rentLamports = 1788720, data = fixture_game 50 Created \<rparr>"
            3 "Inr ()" fixture_config "Inr [140]" L1 L1 L1 "CloseGame 7" L1 7] g c s l1
  have 1: "resolve_game 7 (Inr [140]) ?C = Inl InvalidGameState
         \<and> close_game 7 ?C = Inl InvalidGameState
         \<and> state_at L1 7 = Some RandomnessRequested"
    by simp
  from t [of ?R 7 "\<lparr> rentLamports = 1788720, data = fixture_game 50 RandomnessRequested \<rparr>"
            3 "Inr ()" fixture_config "Inr [140]" L2 L2 L2 "CloseGame 7" L2 7] g c s l2
  have 2: "request_randomness 7 3 (Inr ()) ?R = Inl InvalidGameState
         \<and> close_game 7 ?R = Inl InvalidGameState
         \<and> state_at L2 7 = Some Resolved"
    by simp
  from t [of ?D 7 "\<lparr> rentLamports = 1788720, data = fixture_game 50 Resolved \<rparr>"
            3 "Inr ()" fixture_config "Inr [140]" L3 L3 L3 "CloseGame 7" L3 7] g c s l3
  have 3: "request_randomness 7 3 (Inr ()) ?D = Inl InvalidGameState
         \<and> resolve_game 7 (Inr [140]) ?D = Inl InvalidGameState
         \<and> state_at L3 7 = None"
    by simp
  from t [of fixture_ready 7 "\<lparr> rentLamports = 1788720, data = fixture_game 50 Created \<rparr>"
            3 "Inr ()" fixture_config "Inr [140]" L1 L1 L1 "CloseGame 7" L1 7] g
  have 4: "close_game 7 fixture_ready = Inl AccountNotInitialized"
    by simp
  from 1 2 3 4 l1 l2 l3 show ?thesis by blast
qed

section \<open>Creation\<close>

text \<open>
  C5. With the Config initialised, \<open>create_game\<close> with a bet of 0 fails
  \<open>InvalidBetAmount\<close>, with a bet greater than the Config's maximum bet it fails
  \<open>BetTooHigh\<close>, and for every bet with \<open>0 < bet \<le> maxBet\<close> it succeeds and the
  resulting wager is in state Created with the fields as given, provided the record can
  be allocated (the bettor has no wager record yet and can pay the allocation deposit).
\<close>

theorem create_game_bet_bounds:
  assumes "config L = Some cfg"
  shows "(bet = 0 \<longrightarrow> create_game p bet r s d now rent b L = Inl InvalidBetAmount)
       \<and> (maxBetAmount cfg < bet \<longrightarrow> create_game p bet r s d now rent b L = Inl BetTooHigh)
       \<and> (0 < bet \<and> bet \<le> maxBetAmount cfg \<and> games L p = None \<and> rent \<le> lamports L p
            \<longrightarrow> (\<exists>L'. create_game p bet r s d now rent b L = Inr L'
                     \<and> state_at L' p = Some Created
                     \<and> fetch_game p L' =
                         Inr \<lparr> player = p, recipient = r, betAmount = bet, choice = s,
                               discountPercentage = d, gameState = Created, createdAt = now,
                               vrfClientState = None, result = None, bump = b \<rparr>))"
proof -
  have z: "bet = 0 \<longrightarrow> \<not> maxBetAmount cfg < bet" by auto
  have nz: "0 < bet \<longrightarrow> bet \<noteq> 0" by auto
  have le: "bet \<le> maxBetAmount cfg \<longrightarrow> \<not> maxBetAmount cfg < bet" by auto
  show ?thesis using assms z nz le
    by (auto simp: create_game_def state_at_def fetch_game_def)
qed

text \<open>
  Witness: against the maximum bet of 5 SOL, a bet of 0 and a bet of 10 SOL are
  rejected, and a bet of 0.1 SOL creates the wager.
\<close>

theorem create_game_bet_bounds_witness:
  "config fixture_ready = Some fixture_config
   \<and> create_game 7 0 9 Tails 25 1700000000 1788720 255 fixture_ready = Inl InvalidBetAmount
   \<and> create_game 7 10000000000 9 Heads 50 1700000000 1788720 255 fixture_ready
       = Inl BetTooHigh
   \<and> (\<exists>L'. create_game 7 100000000 9 Heads 100 1700000000 1788720 255 fixture_ready = Inr L'
          \<and> state_at L' 7 = Some Created)"
proof -
  have c: "config fixture_ready = Some fixture_config"
    by (simp add: fixture_ready_def fixture_empty_def)
  have m: "maxBetAmount fixture_config = 5000000000" by (simp add: fixture_config_def)
  have g: "games fixture_ready 7 = None \<and> (1788720::nat) \<le> lamports fixture_ready 7"
    by (simp add: fixture_ready_def fixture_empty_def)
  from create_game_bet_bounds [OF c, of 0 7 9 Tails 25 1700000000 1788720 255]
  have 1: "create_game 7 0 9 Tails 25 1700000000 1788720 255 fixture_ready
             = Inl InvalidBetAmount"
    by simp
  from create_game_bet_bounds [OF c, of 10000000000 7 9 Heads 50 1700000000 1788720 255] m
  have 2: "create_game 7 10000000000 9 Heads 50 1700000000 1788720 255 fixture_ready
             = Inl BetTooHigh"
    by simp
  from create_game_bet_bounds [OF c, of 100000000 7 9 Heads 100 1700000000 1788720 255] m g
  have 3: "\<exists>L'. create_game 7 100000000 9 Heads 100 1700000000 1788720 255 fixture_ready
                   = Inr L'
               \<and> state_at L' 7 = Some Created"
    by auto
  from c 1 2 3 show ?thesis by simp
qed

text \<open>
  C9. For every successful \<open>create_game\<close>, no bet funds are moved: the treasury's balance
  is unchanged, the bettor is charged the allocation deposit and nothing else (the
  charge does not depend on the bet amount), every other balance is unchanged, and so is
  the Config. The deposit is what the new record holds. Network fees are outside the
  engine and are not part of the model.
\<close>

theorem create_game_moves_no_bet_funds:
  assumes "create_game p bet r s d now rent b L = Inr L'"
  shows "treasury L' = treasury L
       \<and> rent \<le> lamports L p
       \<and> lamports L' p = lamports L p - rent
       \<and> (\<forall>k. k \<noteq> p \<longrightarrow> lamports L' k = lamports L k)
       \<and> config L' = config L
       \<and> (\<exists>acct. games L' p = Some acct \<and> rentLamports acct = rent)"
  using assms
  by (auto simp: create_game_def split: option.splits if_splits)

text \<open>Witness: creating the fixture wager of 0.1 SOL costs the bettor the deposit of
  1788720 lamports and leaves the recipient and the treasury as they were.\<close>

theorem create_game_moves_no_bet_funds_witness:
  "\<exists>L'. create_game 7 100000000 9 Heads 100 1700000000 1788720 255 fixture_ready = Inr L'
        \<and> treasury L' = 0 \<and> lamports L' 7 = 5000000000 - 1788720
        \<and> lamports L' 9 = 500000000"
proof -
  obtain L' where
    c: "create_game 7 100000000 9 Heads 100 1700000000 1788720 255 fixture_ready = Inr L'"
    by (simp add: create_game_def fixture_ready_def fixture_empty_def fixture_config_def)
  from create_game_moves_no_bet_funds [OF c]
  have "treasury L' = 0 \<and> lamports L' 7 = 5000000000 - 1788720 \<and> lamports L' 9 = 500000000"
    by (simp add: fixture_ready_def fixture_empty_def)
  with c show ?thesis by blast
qed

section \<open>Closure\<close>

text \<open>The deposit a record holds is the one charged at creation: no instruction changes
  the deposit of a record that stays.\<close>

lemma deposit_kept:
  assumes "execute ix L = Inr L'" and "games L a = Some acct" and "games L' a = Some acct'"
  shows "rentLamports acct' = rentLamports acct"
proof (cases ix)
  case (InitializeConfig c he mb)
  with assms show ?thesis by (auto simp: initialize_config_def split: option.splits)
next
  case (CreateGame p amt r s d now rent b)
  with assms show ?thesis
    by (auto simp: create_game_def split: option.splits if_splits)
next
  case (RequestRandomness pda vrf cpi)
  with assms show ?thesis
    by (auto simp: request_randomness_def Let_def split: option.splits if_splits sum.splits)
next
  case (ResolveGame pda vr)
  with assms have m: "resolve_game pda vr L = Inr L'" by simp
  from resolve_game_InrD [OF m] assms(2,3) show ?thesis by (auto split: if_splits)
next
  case (CloseGame pda)
  with assms show ?thesis
    by (auto simp: close_game_def Let_def split: option.splits if_splits)
qed

text \<open>
  C7. On a wager in the Resolved state \<open>close_game\<close> succeeds, and afterwards the wager
  record no longer exists: reading it fails \<open>AccountNotInitialized\<close>, and so does every
  operation on it; the bettor's balance has grown by the allocation deposit the record
  held (the deposit charged at creation, by \<open>deposit_kept\<close>), which for a positive deposit
  is a strict increase.
\<close>

theorem close_game_deallocates:
  assumes "games L a = Some acct" and "gameState (data acct) = Resolved"
      and "0 < rentLamports acct"
  shows "\<exists>L'. close_game a L = Inr L'
           \<and> fetch_game a L' = Inl AccountNotInitialized
           \<and> close_game a L' = Inl AccountNotInitialized
           \<and> request_randomness a vrf cpi L' = Inl AccountNotInitialized
           \<and> resolve_game a vr L' = Inl AccountNotInitialized
           \<and> lamports L' (player (data acct))
               = lamports L (player (data acct)) + rentLamports acct
           \<and> lamports L (player (data acct)) < lamports L' (player (data acct))"
  using assms
  by (simp add: close_game_def fetch_game_def request_randomness_def resolve_game_def Let_def)

text \<open>Witness: closing the resolved fixture wager returns the deposit of 1788720 lamports
  to the bettor, and the record can no longer be read.\<close>

theorem close_game_deallocates_witness:
  "\<exists>L'. close_game 7 (fixture_ledger 100 Resolved) = Inr L'
        \<and> fetch_game 7 L' = Inl AccountNotInitialized
        \<and> lamports L' 7 = 5000000000 + 1788720"
proof -
  let ?L = "fixture_ledger 100 Resolved"
  let ?a = "\<lparr> rentLamports = 1788720, data = fixture_game 100 Resolved \<rparr>"
  have g: "games ?L 7 = Some ?a" by (simp add: fixture_defs)
  have s: "gameState (data ?a) = Resolved" by (simp add: fixture_defs)
  have r: "0 < rentLamports ?a" by simp
  from close_game_deallocates [OF g s r, of 0 "Inr ()" "Inr [140]"]
  show ?thesis by (auto simp: fixture_defs)
qed

section \<open>Config bootstrap\<close>

text \<open>
  C8. \<open>initializeConfig\<close> is idempotent. Called with a wallet connected: if a Config
  already exists it is a no-op success returning the Config address; otherwise the Config
  is allocated with authority = the caller, maxBet = the input of the instruction (the
  hook always passes 5 SOL) and both aggregate counters 0, and the same address is
  returned. A second call after a successful first call, by any wallet, changes nothing.
\<close>

theorem hook_initializeConfig_idempotent:
  "(config L = Some cfg \<longrightarrow> hook_initializeConfig he (Some w) pda L = Inr (pda, L))
   \<and> (config L = None \<longrightarrow>
        hook_initializeConfig he (Some w) pda L
          = Inr (pda, L\<lparr> config := Some \<lparr> authority = w, houseEdge = he,
                                          maxBetAmount = 5000000000,
                                          totalGames = 0, totalVolume = 0 \<rparr> \<rparr>)
      \<and> initialize_config w he m L
          = Inr (L\<lparr> config := Some \<lparr> authority = w, houseEdge = he, maxBetAmount = m,
                                    totalGames = 0, totalVolume = 0 \<rparr> \<rparr>))
   \<and> (hook_initializeConfig he (Some w) pda L = Inr (addr, L1) \<longrightarrow>
        addr = pda \<and> config L1 \<noteq> None
      \<and> hook_initializeConfig he2 (Some w2) pda L1 = Inr (pda, L1))"
  by (auto simp: hook_initializeConfig_def initialize_config_def split: option.splits)

text \<open>Witness: on a ledger with a Config the call returns the ledger as it is; on a
  ledger without one the first call creates the fixture Config and a second call, by
  another wallet, returns that ledger unchanged.\<close>

theorem hook_initializeConfig_idempotent_witness:
  "hook_initializeConfig 200 (Some 7) 42 fixture_ready = Inr (42, fixture_ready)
   \<and> (\<exists>L1. hook_initializeConfig 200 (Some 1) 42 fixture_empty = Inr (42, L1)
          \<and> config L1 = Some fixture_config
          \<and> hook_initializeConfig 200 (Some 7) 42 L1 = Inr (42, L1))"
proof -
  have c: "config fixture_ready = Some fixture_config"
    by (simp add: fixture_ready_def fixture_empty_def)
  have n: "config fixture_empty = None" by (simp add: fixture_empty_def)
  let ?L1 = "fixture_empty\<lparr> config := Some \<lparr> authority = 1, houseEdge = 200,
                                          maxBetAmount = 5000000000,
                                          totalGames = 0, totalVolume = 0 \<rparr> \<rparr>"
  from hook_initializeConfig_idempotent
         [of fixture_ready fixture_config 200 7 42 5000000000 42 fixture_ready 200 7] c
  have 1: "hook_initializeConfig 200 (Some 7) 42 fixture_ready = Inr (42, fixture_ready)"
    by simp
  from hook_initializeConfig_idempotent
         [of fixture_empty fixture_config 200 1 42 5000000000 42 ?L1 200 7] n
  have 2: "hook_initializeConfig 200 (Some 1) 42 fixture_empty = Inr (42, ?L1)
         \<and> hook_initializeConfig 200 (Some 7) 42 ?L1 = Inr (42, ?L1)"
    by simp
  have 3: "config ?L1 = Some fixture_config" by (simp add: fixture_config_def)
  from 1 2 3 show ?thesis by blast
qed

section \<open>Number arithmetic on whole amounts\<close>

text \<open>
  Whole numbers of magnitude up to \<open>2 ^ 53\<close> are representable, so arithmetic whose
  operands and result are such numbers is exact. Beyond that range a sum is rounded:
  \<open>2 ^ 53 + 1\<close> becomes \<open>2 ^ 53\<close>.
\<close>

lemma powr2_nonneg:
  fixes k :: int
  assumes "0 \<le> k"
  shows "(2::real) powr (of_int k) = 2 ^ nat k"
  using assms by (simp add: powr_real_of_int)

lemma powr2_neg:
  fixes k :: int
  assumes "0 \<le> k"
  shows "(2::real) powr (of_int (- k)) = 1 / 2 ^ nat k"
proof (cases "k = 0")
  case True
  then show ?thesis by simp
next
  case False
  with assms have "\<not> 0 \<le> - k" by simp
  then show ?thesis by (simp only: powr_real_of_int) (simp add: inverse_eq_divide)
qed

lemma floor_log2_I:
  fixes x :: real and k :: int
  assumes "0 \<le> k" and "2 ^ nat k \<le> x" and "x < 2 ^ nat (k + 1)"
  shows "\<lfloor>log 2 x\<rfloor> = k"
proof -
  have p: "0 < x" using assms(2) by (smt (verit) zero_less_power)
  have k1: "0 \<le> k + 1" using assms(1) by simp
  have "\<lfloor>log 2 x\<rfloor> = k \<longleftrightarrow> 2 powr (of_int k) \<le> x \<and> x < 2 powr (of_int (k + 1))"
    by (rule floor_log_eq_powr_iff) (use p in simp_all)
  then show ?thesis
    unfolding powr2_nonneg [OF assms(1)] powr2_nonneg [OF k1] using assms(2,3) by blast
qed

lemma floor_log2_I_neg:
  fixes x :: real and j :: int
  assumes "1 \<le> j" and "1 / 2 ^ nat j \<le> x" and "x < 1 / 2 ^ nat (j - 1)"
  shows "\<lfloor>log 2 x\<rfloor> = - j"
proof -
  have p: "0 < x" using assms(2) by (smt (verit) zero_less_power zero_less_divide_1_iff)
  have j0: "0 \<le> j" and j1: "0 \<le> j - 1" using assms(1) by simp_all
  have e: "- j + 1 = - (j - 1)" by simp
  have "\<lfloor>log 2 x\<rfloor> = - j \<longleftrightarrow> 2 powr (of_int (- j)) \<le> x \<and> x < 2 powr (of_int (- j + 1))"
    by (rule floor_log_eq_powr_iff) (use p in simp_all)
  then show ?thesis
    unfolding e powr2_neg [OF j0] powr2_neg [OF j1] using assms(2,3) by blast
qed

lemma floor_log2_eq:
  assumes "0 < x"
  shows "floor_log2 x = \<lfloor>log 2 x\<rfloor>"
proof (cases "1 \<le> x")
  case True
  let ?m = "\<lfloor>x\<rfloor>"
  have m: "0 < ?m" using True by simp
  from bitlen_bounds [OF m]
  have lo: "2 ^ nat (bitlen ?m - 1) \<le> ?m" and hi: "?m < 2 ^ nat (bitlen ?m)"
    by simp_all
  have k0: "0 \<le> bitlen ?m - 1" using m by (simp add: bitlen_alt_def)
  have "real_of_int (2 ^ nat (bitlen ?m - 1)) \<le> real_of_int ?m"
    using lo by (simp only: of_int_le_iff)
  then have a: "2 ^ nat (bitlen ?m - 1) \<le> x" by (simp add: le_floor_iff)
  have "?m + 1 \<le> 2 ^ nat (bitlen ?m)" using hi by simp
  then have "real_of_int (?m + 1) \<le> real_of_int (2 ^ nat (bitlen ?m))"
    by (simp only: of_int_le_iff)
  then have "x < 2 ^ nat (bitlen ?m)" by simp linarith
  then have b: "x < 2 ^ nat (bitlen ?m - 1 + 1)" by simp
  from floor_log2_I [OF k0 a b] True show ?thesis by (simp add: floor_log2_def)
next
  case False
  let ?r = "1 / x"
  let ?c = "\<lceil>?r\<rceil>"
  let ?j = "bitlen (?c - 1)"
  have r1: "1 < ?r" using False assms by simp
  have c2: "0 < ?c - 1" using r1 by (simp add: less_ceiling_iff)
  from bitlen_bounds [OF c2]
  have lo: "2 ^ nat (?j - 1) \<le> ?c - 1" and hi: "?c - 1 < 2 ^ nat ?j"
    by simp_all
  have j1: "1 \<le> ?j" using c2 by (simp add: bitlen_alt_def)
  have "?c \<le> 2 ^ nat ?j" using hi by simp
  then have "real_of_int ?c \<le> real_of_int (2 ^ nat ?j)" by (simp only: of_int_le_iff)
  then have h1: "real_of_int ?c \<le> 2 ^ nat ?j" by simp
  have h2: "?r \<le> real_of_int ?c" by (rule le_of_int_ceiling)
  from h1 h2 have rle: "?r \<le> 2 ^ nat ?j" by (rule order_trans [rotated])
  have "real_of_int (2 ^ nat (?j - 1)) \<le> real_of_int (?c - 1)"
    using lo by (simp only: of_int_le_iff)
  then have h3: "2 ^ nat (?j - 1) \<le> real_of_int ?c - 1" by simp
  have h4: "real_of_int ?c - 1 < ?r" using ceiling_correct [of ?r] by linarith
  from h3 h4 have rgt: "2 ^ nat (?j - 1) < ?r" by (rule le_less_trans)
  have a: "1 / 2 ^ nat ?j \<le> x"
  proof -
    have "1 \<le> x * 2 ^ nat ?j" using rle assms by (simp add: field_simps)
    then show ?thesis by (simp add: field_simps)
  qed
  have b: "x < 1 / 2 ^ nat (?j - 1)"
  proof -
    have "x * 2 ^ nat (?j - 1) < 1" using rgt assms by (simp add: field_simps)
    then show ?thesis by (simp add: field_simps)
  qed
  from floor_log2_I_neg [OF j1 a b] False show ?thesis by (simp add: floor_log2_def)
qed

lemma round_half_even_of_int: "round_half_even (of_int k) = k"
  by (simp add: round_half_even_def)

lemma floor_log2_bounds:
  fixes x :: real
  assumes "1 \<le> x" and "x \<le> 2 ^ m"
  shows "0 \<le> \<lfloor>log 2 x\<rfloor> \<and> \<lfloor>log 2 x\<rfloor> \<le> int m"
proof -
  have p: "0 < x" using assms(1) by linarith
  have a: "0 \<le> log 2 x" using assms(1) p by simp
  have b: "log 2 x \<le> real m" using assms(2) p by (simp add: log_le_iff powr_realpow)
  from a have "0 \<le> \<lfloor>log 2 x\<rfloor>" by simp
  moreover from b have "\<lfloor>log 2 x\<rfloor> \<le> int m" by (simp add: floor_le_iff)
  ultimately show ?thesis by simp
qed

lemma floor_log2_lower:
  fixes x :: real
  assumes "1 \<le> x"
  shows "2 ^ nat \<lfloor>log 2 x\<rfloor> \<le> x"
proof -
  have p: "0 < x" using assms by linarith
  have e: "0 \<le> \<lfloor>log 2 x\<rfloor>" using assms p by simp
  from floor_log_eq_powr_iff [of x 2 "\<lfloor>log 2 x\<rfloor>"] p
  have "2 powr (of_int \<lfloor>log 2 x\<rfloor>) \<le> x" by simp
  then show ?thesis using e by (simp add: powr_real_of_int)
qed

text \<open>An integer of magnitude at most \<open>2 ^ (p + 1)\<close> is a whole multiple of the unit in the
  last place of a significand of \<open>p + 1\<close> bits.\<close>

lemma int_quotient_by_ulp:
  fixes n :: int and p :: nat
  assumes "n \<noteq> 0" and "\<bar>n\<bar> \<le> 2 ^ Suc p"
  shows "0 \<le> \<lfloor>log 2 \<bar>of_int n :: real\<bar>\<rfloor>
       \<and> (\<exists>k::int. of_int n / (2::real) powi (\<lfloor>log 2 \<bar>of_int n :: real\<bar>\<rfloor> - int p) = of_int k)"
proof -
  let ?x = "of_int n :: real"
  let ?e = "\<lfloor>log 2 \<bar>?x\<bar>\<rfloor>"
  have x1: "1 \<le> \<bar>?x\<bar>" using assms(1) by simp
  have x2: "\<bar>?x\<bar> \<le> 2 ^ Suc p"
    using assms(2) by (metis of_int_abs of_int_le_numeral_power_cancel_iff)
  from floor_log2_bounds [OF x1 x2] have e: "0 \<le> ?e" "?e \<le> int (Suc p)" by simp_all
  have "\<exists>k::int. ?x / 2 powi (?e - int p) = of_int k"
  proof (cases "?e \<le> int p")
    case True
    then have "?e - int p = - int (nat (int p - ?e))" by simp
    then have "(2::real) powi (?e - int p) = 1 / 2 ^ nat (int p - ?e)"
      by (simp only: power_int_minus_divide power_int_of_nat)
    then have "?x / 2 powi (?e - int p) = of_int (n * 2 ^ nat (int p - ?e))" by simp
    then show ?thesis by blast
  next
    case False
    with e have ep: "?e = int (Suc p)" by linarith
    then have "nat ?e = Suc p" by simp
    with floor_log2_lower [OF x1] have "2 ^ Suc p \<le> \<bar>?x\<bar>" by simp
    with x2 have "\<bar>?x\<bar> = 2 ^ Suc p" by linarith
    then have "\<bar>?x\<bar> / 2 = of_int (2 ^ p)" by simp
    then have "?x / 2 = of_int (2 ^ p) \<or> ?x / 2 = of_int (- (2 ^ p))"
      by (cases "0 \<le> ?x") simp_all
    moreover from ep have "(2::real) powi (?e - int p) = 2" by simp
    ultimately show ?thesis by metis
  qed
  with e(1) show ?thesis by simp
qed

lemma round_double_exact_int:
  assumes "\<bar>n\<bar> \<le> 2 ^ 53"
  shows "round_double (of_int n) = Num (of_int n)"
proof (cases "n = 0")
  case True
  then show ?thesis by (simp add: round_double_def)
next
  case False
  let ?x = "of_int n :: real"
  let ?e = "\<lfloor>log 2 \<bar>?x\<bar>\<rfloor>"
  have b: "\<bar>n\<bar> \<le> 2 ^ Suc 52" using assms by simp
  from int_quotient_by_ulp [OF False b] obtain k :: int where
    e: "0 \<le> ?e" and k: "?x / 2 powi (?e - 52) = of_int k" by auto
  have "0 < \<bar>?x\<bar>" using False by simp
  then have fe: "floor_log2 \<bar>?x\<bar> = ?e" by (rule floor_log2_eq)
  have ue: "ulp_exponent ?x = ?e - 52" unfolding ulp_exponent_def fe using e by simp
  have u0: "(2::real) powi (?e - 52) \<noteq> 0" by simp
  from k u0 have mulback: "of_int k * 2 powi (?e - 52) = ?x"
    by (metis nonzero_divide_eq_eq)
  have small: "\<not> 2 ^ 1024 \<le> \<bar>?x\<bar>"
  proof -
    have "\<bar>?x\<bar> \<le> 2 ^ 53"
      using assms by (metis of_int_abs of_int_le_numeral_power_cancel_iff)
    moreover have "(2::real) ^ 53 < 2 ^ 1024" by (rule power_strict_increasing) simp_all
    ultimately show ?thesis by linarith
  qed
  have x0: "?x \<noteq> 0" using False by simp
  show ?thesis
    unfolding round_double_def Let_def ue k round_half_even_of_int mulback
    using x0 small by simp
qed


lemma floor_log2_2pow53_plus1: "\<lfloor>log 2 \<bar>9007199254740993 :: real\<bar>\<rfloor> = 53"
proof -
  have "(2::real) powr (of_int 53) \<le> 9007199254740993 \<and> (9007199254740993::real) < 2 powr (of_int 53 + 1)"
    by simp
  then show ?thesis
    using floor_log_eq_powr_iff [of "9007199254740993::real" 2 53] by simp
qed

lemma round_double_2pow53_plus1: "round_double 9007199254740993 = Num 9007199254740992"
proof -
  have "floor_log2 \<bar>9007199254740993\<bar> = \<lfloor>log 2 \<bar>9007199254740993 :: real\<bar>\<rfloor>"
    by (rule floor_log2_eq) simp
  then have u: "ulp_exponent 9007199254740993 = 1"
    unfolding ulp_exponent_def floor_log2_2pow53_plus1 by simp
  have f: "\<lfloor>9007199254740993 / 2 :: real\<rfloor> = 4503599627370496"
    by (simp add: floor_eq_iff)
  have h: "round_half_even (9007199254740993 / 2) = 4503599627370496"
    unfolding round_half_even_def Let_def f by simp
  have s: "\<not> (2::real) ^ 1024 \<le> 9007199254740992"
  proof -
    have "(2::real) ^ 53 < 2 ^ 1024" by (rule power_strict_increasing) simp_all
    then show ?thesis by simp
  qed
  show ?thesis
    unfolding round_double_def Let_def u using h s by simp
qed


lemma two_pow_53: "(2::int) ^ 53 = 9007199254740992"
  by simp

lemma required_int:
  assumes "\<bar>3 * n\<bar> \<le> 2 ^ 53"
  shows "num_add (Num (of_int n)) (num_mul (Num (of_int n)) (Num 2)) = Num (of_int (3 * n))"
proof -
  have a: "\<bar>n * 2\<bar> \<le> 2 ^ 53" using assms by linarith
  have b: "\<bar>n + n * 2\<bar> \<le> 2 ^ 53" using assms by linarith
  have d: "round_double (of_int (n * 2)) = Num (of_int (n * 2))"
    by (rule round_double_exact_int [OF a])
  have t: "round_double (of_int (n + n * 2)) = Num (of_int (n + n * 2))"
    by (rule round_double_exact_int [OF b])
  have "num_mul (Num (of_int n)) (Num 2) = round_double (of_int (n * 2))" by simp
  then have m: "num_mul (Num (of_int n)) (Num 2) = Num (of_int (n * 2))" using d by simp
  have "num_add (Num (of_int n)) (Num (of_int (n * 2))) = round_double (of_int (n + n * 2))"
    by simp
  then have "num_add (Num (of_int n)) (Num (of_int (n * 2))) = Num (of_int (n + n * 2))"
    using t by simp
  moreover have "n + n * 2 = 3 * n" by simp
  ultimately show ?thesis unfolding m by simp
qed

lemma minRequired_int:
  assumes "\<bar>3 * n\<bar> \<le> 2 ^ 53"
  shows "num_add (num_mul (Num (of_int n)) (Num 2)) (Num 10000) = Num (of_int (n * 2 + 10000))"
proof -
  have a: "\<bar>n * 2\<bar> \<le> 2 ^ 53" using assms by linarith
  have b: "\<bar>n * 2 + 10000\<bar> \<le> 2 ^ 53" using assms unfolding two_pow_53 by linarith
  have d: "round_double (of_int (n * 2)) = Num (of_int (n * 2))"
    by (rule round_double_exact_int [OF a])
  have t: "round_double (of_int (n * 2 + 10000)) = Num (of_int (n * 2 + 10000))"
    by (rule round_double_exact_int [OF b])
  have "num_mul (Num (of_int n)) (Num 2) = round_double (of_int (n * 2))" by simp
  then have m: "num_mul (Num (of_int n)) (Num 2) = Num (of_int (n * 2))" using d by simp
  have "num_add (Num (of_int (n * 2))) (Num 10000) = round_double (of_int (n * 2 + 10000))"
    by simp
  then show ?thesis unfolding m using t by simp
qed

section \<open>Treasury solvency check\<close>

text \<open>
  C10, as stated (for every sendAmount the required amount is \<open>3 * sendAmount\<close> and the
  verdict is sufficient exactly when the treasury balance is at least \<open>3 * sendAmount\<close>),
  fails outside the range where the number arithmetic is exact: for a sendAmount of
  3002399751580331 and a treasury balance of \<open>2 ^ 53 = 9007199254740992\<close>, three times
  the amount is 9007199254740993, but both functions compute the required amount
  9007199254740992 and report sufficient.
\<close>

theorem checkTreasuryBalance_three_times_counterexample:
  "required (sdk_checkTreasuryBalance (Num 9007199254740992) (Num 3002399751580331))
     \<noteq> Num (3 * 3002399751580331)
   \<and> sufficient (sdk_checkTreasuryBalance (Num 9007199254740992) (Num 3002399751580331))
     \<noteq> (3 * 3002399751580331 \<le> (9007199254740992::real))
   \<and> required (hook_checkTreasuryBalance (Num 9007199254740992) (Num 3002399751580331))
     \<noteq> Num (3 * 3002399751580331)
   \<and> sufficient (hook_checkTreasuryBalance (Num 9007199254740992) (Num 3002399751580331))
     \<noteq> (3 * 3002399751580331 \<le> (9007199254740992::real))"
proof -
  have m: "num_mul (Num 3002399751580331) (Num 2) = Num 6004799503160662"
    using round_double_exact_int [of 6004799503160662] by simp
  have r: "num_add (Num 3002399751580331) (Num 6004799503160662) = Num 9007199254740992"
    using round_double_2pow53_plus1 by simp
  show ?thesis
    unfolding sdk_checkTreasuryBalance_def hook_checkTreasuryBalance_def Let_def m r
    by simp
qed

text \<open>
  C10, amended. The SDK's and the hook's \<open>checkTreasuryBalance\<close> are equivalent for every
  sendAmount and treasury balance: they compute the same required amount, report the
  same available balance and return the same verdict. For a whole sendAmount \<open>n\<close> with
  \<open>\<bar>3 * n\<bar> \<le> 2 ^ 53\<close>, the range in which the number arithmetic is exact, the required
  amount is \<open>sendAmount + sendAmount * 2 = 3 * n\<close> and the verdict is sufficient exactly
  when the treasury balance is at least \<open>3 * n\<close>.
\<close>

theorem checkTreasuryBalance_sdk_hook_equiv:
  "required (hook_checkTreasuryBalance tb s) = required (sdk_checkTreasuryBalance tb s)
   \<and> available (hook_checkTreasuryBalance tb s) = available (sdk_checkTreasuryBalance tb s)
   \<and> sufficient (hook_checkTreasuryBalance tb s) = sufficient (sdk_checkTreasuryBalance tb s)
   \<and> (\<bar>3 * n\<bar> \<le> 2 ^ 53 \<longrightarrow>
        required (sdk_checkTreasuryBalance tb (Num (of_int n))) = Num (of_int (3 * n))
      \<and> required (hook_checkTreasuryBalance tb (Num (of_int n))) = Num (of_int (3 * n))
      \<and> sufficient (sdk_checkTreasuryBalance (Num t) (Num (of_int n))) = (of_int (3 * n) \<le> t)
      \<and> sufficient (hook_checkTreasuryBalance (Num t) (Num (of_int n))) = (of_int (3 * n) \<le> t))"
proof -
  have g: "required (hook_checkTreasuryBalance tb s) = required (sdk_checkTreasuryBalance tb s)
   \<and> available (hook_checkTreasuryBalance tb s) = available (sdk_checkTreasuryBalance tb s)
   \<and> sufficient (hook_checkTreasuryBalance tb s) = sufficient (sdk_checkTreasuryBalance tb s)"
    by (simp add: sdk_checkTreasuryBalance_def hook_checkTreasuryBalance_def Let_def)
  have e: "\<bar>3 * n\<bar> \<le> 2 ^ 53 \<longrightarrow>
        required (sdk_checkTreasuryBalance tb (Num (of_int n))) = Num (of_int (3 * n))
      \<and> required (hook_checkTreasuryBalance tb (Num (of_int n))) = Num (of_int (3 * n))
      \<and> sufficient (sdk_checkTreasuryBalance (Num t) (Num (of_int n))) = (of_int (3 * n) \<le> t)
      \<and> sufficient (hook_checkTreasuryBalance (Num t) (Num (of_int n))) = (of_int (3 * n) \<le> t)"
  proof
    assume a: "\<bar>3 * n\<bar> \<le> 2 ^ 53"
    show "required (sdk_checkTreasuryBalance tb (Num (of_int n))) = Num (of_int (3 * n))
      \<and> required (hook_checkTreasuryBalance tb (Num (of_int n))) = Num (of_int (3 * n))
      \<and> sufficient (sdk_checkTreasuryBalance (Num t) (Num (of_int n))) = (of_int (3 * n) \<le> t)
      \<and> sufficient (hook_checkTreasuryBalance (Num t) (Num (of_int n))) = (of_int (3 * n) \<le> t)"
      unfolding sdk_checkTreasuryBalance_def hook_checkTreasuryBalance_def Let_def
        required_int [OF a]
      by simp
  qed
  from g e show ?thesis by blast
qed

text \<open>Witness: a sendAmount of 0.1 SOL against treasuries of 0.25 SOL and 0.3 SOL.\<close>

theorem checkTreasuryBalance_sdk_hook_equiv_witness:
  "\<bar>3 * (100000000::int)\<bar> \<le> 2 ^ 53
   \<and> required (sdk_checkTreasuryBalance (Num 250000000) (Num 100000000)) = Num 300000000
   \<and> required (hook_checkTreasuryBalance (Num 250000000) (Num 100000000)) = Num 300000000
   \<and> \<not> sufficient (sdk_checkTreasuryBalance (Num 250000000) (Num 100000000))
   \<and> sufficient (hook_checkTreasuryBalance (Num 300000000) (Num 100000000))"
  using checkTreasuryBalance_sdk_hook_equiv [of "Num 250000000" "Num 100000000" 100000000 250000000]
        checkTreasuryBalance_sdk_hook_equiv [of "Num 300000000" "Num 100000000" 100000000 300000000]
  by simp

text \<open>
  C6, as stated (sufficient exactly when the treasury balance is at least
  \<open>betAmount * 2\<close>), fails: with a bet of 100000000 lamports and a treasury holding
  250000000 lamports the balance covers \<open>betAmount * 2\<close>, yet both checks report
  insufficient.
\<close>

theorem checkTreasuryBalance_two_times_counterexample:
  "sufficient (hook_checkTreasuryBalance (Num 250000000) (Num 100000000))
     \<noteq> (100000000 * 2 \<le> (250000000::real))
   \<and> sufficient (sdk_checkTreasuryBalance (Num 250000000) (Num 100000000))
     \<noteq> (100000000 * 2 \<le> (250000000::real))"
proof -
  have m: "num_mul (Num 100000000) (Num 2) = Num 200000000"
    using round_double_exact_int [of 200000000] by simp
  have r: "num_add (Num 100000000) (Num 200000000) = Num 300000000"
    using round_double_exact_int [of 300000000] by simp
  show ?thesis
    unfolding sdk_checkTreasuryBalance_def hook_checkTreasuryBalance_def Let_def m r
    by simp
qed

text \<open>
  C6, amended. For a whole bet amount \<open>n\<close> with \<open>\<bar>3 * n\<bar> \<le> 2 ^ 53\<close>, the range in which
  the number arithmetic is exact, the pre-flight check reports sufficient exactly when
  the treasury balance is at least \<open>betAmount + betAmount * 2\<close> (the amount sent plus the
  escrow of twice that amount), in the SDK and in the hook, and the pre-flight of
  \<open>playGame\<close> passes exactly when the wallet is connected, the wallet balance is at least
  \<open>betAmount * 2 + 10000\<close> and the treasury balance is at least
  \<open>betAmount + betAmount * 2\<close>. For every bet amount, \<open>playGame\<close> evaluates the check
  before the wager is submitted: whenever the pre-flight passes, the check was sufficient.
\<close>

theorem checkTreasuryBalance_sufficient_iff:
  "(playGame_preflight w balance tb bet = Inr ()
      \<longrightarrow> w \<and> sufficient (hook_checkTreasuryBalance tb bet))
   \<and> (\<bar>3 * n\<bar> \<le> 2 ^ 53 \<longrightarrow>
        sufficient (sdk_checkTreasuryBalance (Num t) (Num (of_int n)))
          = (of_int (n + n * 2) \<le> t)
      \<and> sufficient (hook_checkTreasuryBalance (Num t) (Num (of_int n)))
          = (of_int (n + n * 2) \<le> t)
      \<and> (playGame_preflight w (Num b) (Num t) (Num (of_int n)) = Inr ())
          = (w \<and> of_int (n * 2 + 10000) \<le> b \<and> of_int (n + n * 2) \<le> t))"
proof -
  have g: "playGame_preflight w balance tb bet = Inr ()
      \<longrightarrow> w \<and> sufficient (hook_checkTreasuryBalance tb bet)"
    by (auto simp: playGame_preflight_def Let_def split: if_splits)
  have e: "\<bar>3 * n\<bar> \<le> 2 ^ 53 \<longrightarrow>
        sufficient (sdk_checkTreasuryBalance (Num t) (Num (of_int n)))
          = (of_int (n + n * 2) \<le> t)
      \<and> sufficient (hook_checkTreasuryBalance (Num t) (Num (of_int n)))
          = (of_int (n + n * 2) \<le> t)
      \<and> (playGame_preflight w (Num b) (Num t) (Num (of_int n)) = Inr ())
          = (w \<and> of_int (n * 2 + 10000) \<le> b \<and> of_int (n + n * 2) \<le> t)"
  proof
    assume a: "\<bar>3 * n\<bar> \<le> 2 ^ 53"
    have s: "n + n * 2 = 3 * n" by simp
    note r = required_int [OF a] and m = minRequired_int [OF a]
    show "sufficient (sdk_checkTreasuryBalance (Num t) (Num (of_int n)))
          = (of_int (n + n * 2) \<le> t)
      \<and> sufficient (hook_checkTreasuryBalance (Num t) (Num (of_int n)))
          = (of_int (n + n * 2) \<le> t)
      \<and> (playGame_preflight w (Num b) (Num t) (Num (of_int n)) = Inr ())
          = (w \<and> of_int (n * 2 + 10000) \<le> b \<and> of_int (n + n * 2) \<le> t)"
      unfolding s sdk_checkTreasuryBalance_def hook_checkTreasuryBalance_def
        playGame_preflight_def Let_def r m
      by auto
  qed
  from g e show ?thesis by blast
qed

text \<open>Witness: a bet of 0.1 SOL from a wallet holding 5 SOL, against a treasury holding
  exactly 0.3 SOL (sufficient, the pre-flight passes) and one lamport less (insufficient,
  the pre-flight fails).\<close>

theorem checkTreasuryBalance_sufficient_iff_witness:
  "\<bar>3 * (100000000::int)\<bar> \<le> 2 ^ 53
   \<and> playGame_preflight True (Num 5000000000) (Num 300000000) (Num 100000000) = Inr ()
   \<and> sufficient (hook_checkTreasuryBalance (Num 300000000) (Num 100000000))
   \<and> sufficient (sdk_checkTreasuryBalance (Num 300000000) (Num 100000000))
   \<and> \<not> sufficient (sdk_checkTreasuryBalance (Num 299999999) (Num 100000000))
   \<and> playGame_preflight True (Num 5000000000) (Num 299999999) (Num 100000000) \<noteq> Inr ()"
  using checkTreasuryBalance_sufficient_iff
          [of True "Num 5000000000" "Num 300000000" "Num 100000000" 100000000 300000000 5000000000]
        checkTreasuryBalance_sufficient_iff
          [of True "Num 5000000000" "Num 299999999" "Num 100000000" 100000000 299999999 5000000000]
  by simp


end
